theory Spec2Isabelle
  imports Complex_Main "HOL-Library.Multiset"
begin

section \<open>Python values used by the grid scalper\<close>

text \<open>
  The bot computes prices with Python's \<^verbatim>\<open>decimal.Decimal\<close>.  The module
  \<^verbatim>\<open>src/grid.py\<close> sets \<^verbatim>\<open>getcontext().prec = 10\<close> when it is imported, and
  \<^verbatim>\<open>src/bot.py\<close> imports it before any price is computed, so every Decimal
  operation of the bot returns the exact result rounded to ten significant
  digits, ties to even (the context's default rounding).  A Decimal is
  represented by the rational number it denotes; constructing one from a
  string is exact, each arithmetic operation rounds.  The exponent limits of
  the context (\<open>\<plusminus>999999\<close>) and the special values NaN and Infinity are outside
  the model.

  Python floats are represented by the rationals they denote as well, with
  exact arithmetic: binary rounding is not modelled, and none of the
  properties proved below depends on a value computed in float arithmetic.
  Strings are ASCII.
\<close>

datatype error = ValueError | ZeroDivisionError | DivisionByZero | DivisionUndefined
  | ConversionSyntax | InvalidOperation | UnboundLocalError

subsection \<open>Decimal arithmetic with ten significant digits\<close>

definition round_half_even :: "rat \<Rightarrow> int" where
  "round_half_even q =
     (let f = \<lfloor>q\<rfloor>; r = q - of_int f
      in if r < 1 / 2 then f
         else if 1 / 2 < r then f + 1
         else if even f then f else f + 1)"

text \<open>
  \<open>scale_down\<close> and \<open>scale_up\<close> bring a positive number into the interval
  \<open>[10\<^sup>9, 10\<^sup>1\<^sup>0)\<close> and return it with the power of ten that was divided out.
\<close>

function scale_down :: "rat \<Rightarrow> rat \<Rightarrow> rat \<times> rat" where
  "scale_down m s = (if 10000000000 \<le> m then scale_down (m / 10) (s * 10) else (m, s))"
  by pat_completeness auto
termination
proof (relation "measure (\<lambda>(m, s). nat \<lfloor>m\<rfloor>)")
  show "wf (measure (\<lambda>(m, s). nat \<lfloor>m\<rfloor>))" by simp
next
  fix m s :: rat
  assume h: "10000000000 \<le> m"
  have "of_int \<lfloor>m / 10\<rfloor> \<le> m / 10" by (rule of_int_floor_le)
  moreover have "m / 10 < m - 1" using h by simp
  moreover have "m - 1 < of_int \<lfloor>m\<rfloor>" by linarith
  ultimately have "(of_int \<lfloor>m / 10\<rfloor> :: rat) < of_int \<lfloor>m\<rfloor>" by linarith
  then have "\<lfloor>m / 10\<rfloor> < \<lfloor>m\<rfloor>" by simp
  moreover have "0 < \<lfloor>m\<rfloor>" using h by linarith
  ultimately show "((m / 10, s * 10), (m, s)) \<in> measure (\<lambda>(m, s). nat \<lfloor>m\<rfloor>)" by simp
qed

function scale_up :: "rat \<Rightarrow> rat \<Rightarrow> rat \<times> rat" where
  "scale_up m s = (if 0 < m \<and> m < 1000000000 then scale_up (m * 10) (s / 10) else (m, s))"
  by pat_completeness auto
termination
proof (relation "measure (\<lambda>(m, s). nat \<lceil>1000000000 / m\<rceil>)")
  show "wf (measure (\<lambda>(m, s). nat \<lceil>1000000000 / m\<rceil>))" by simp
next
  fix m s :: rat
  assume h: "0 < m \<and> m < 1000000000"
  define y where "y = 1000000000 / m"
  have y1: "1 < y" using h by (simp add: y_def)
  have c2: "2 \<le> \<lceil>y\<rceil>" using y1 by linarith
  have "y / 10 \<le> of_int \<lceil>y\<rceil> / 10" by (simp add: le_of_int_ceiling)
  also have "\<dots> \<le> of_int (\<lceil>y\<rceil> - 1)"
  proof -
    have "(of_int 2 :: rat) \<le> of_int \<lceil>y\<rceil>" using c2 by (simp only: of_int_le_iff)
    then have "(2 :: rat) \<le> of_int \<lceil>y\<rceil>" by (simp only: of_int_numeral)
    then show ?thesis unfolding of_int_diff of_int_1 by linarith
  qed
  finally have "y / 10 \<le> of_int (\<lceil>y\<rceil> - 1)" .
  then have "\<lceil>y / 10\<rceil> \<le> \<lceil>y\<rceil> - 1" by (rule ceiling_le)
  then have lt: "\<lceil>y / 10\<rceil> < \<lceil>y\<rceil>" by linarith
  have eq: "1000000000 / (m * 10) = y / 10" unfolding y_def by simp
  have "nat \<lceil>y / 10\<rceil> < nat \<lceil>y\<rceil>" using lt c2 by linarith
  then have "nat \<lceil>1000000000 / (m * 10)\<rceil> < nat \<lceil>1000000000 / m\<rceil>"
    unfolding eq unfolding y_def .
  then show "((m * 10, s / 10), (m, s)) \<in> measure (\<lambda>(m, s). nat \<lceil>1000000000 / m\<rceil>)"
    by (simp only: in_measure prod.case)
qed

text \<open>The context rounding: the nearest number with ten significant digits.\<close>

definition rnd :: "rat \<Rightarrow> rat" where
  "rnd x =
     (if x = 0 then 0
      else (case scale_up (fst (scale_down \<bar>x\<bar> 1)) (snd (scale_down \<bar>x\<bar> 1)) of
              (m, s) \<Rightarrow> sgn x * of_int (round_half_even m) * s))"

definition dec_add :: "rat \<Rightarrow> rat \<Rightarrow> rat" where
  "dec_add a b = rnd (a + b)"

definition dec_sub :: "rat \<Rightarrow> rat \<Rightarrow> rat" where
  "dec_sub a b = rnd (a - b)"

definition dec_mul :: "rat \<Rightarrow> rat \<Rightarrow> rat" where
  "dec_mul a b = rnd (a * b)"

text \<open>
  Division raises \<^verbatim>\<open>DivisionByZero\<close> on a zero divisor, and
  \<^verbatim>\<open>InvalidOperation\<close> (division undefined) when the dividend is zero too.
\<close>

definition dec_div :: "rat \<Rightarrow> rat \<Rightarrow> error + rat" where
  "dec_div a b =
     (if b = 0 then (if a = 0 then Inl DivisionUndefined else Inl DivisionByZero)
      else Inr (rnd (a / b)))"

text \<open>Division by a non-zero literal (\<^verbatim>\<open>Decimal('2')\<close>, \<^verbatim>\<open>Decimal('100')\<close>) cannot raise.\<close>

definition dec_quot :: "rat \<Rightarrow> rat \<Rightarrow> rat" where
  "dec_quot a b = rnd (a / b)"

subsection \<open>Strings: \<^verbatim>\<open>str.lower\<close> and \<^verbatim>\<open>int\<close>\<close>

definition lower_char :: "char \<Rightarrow> char" where
  "lower_char c =
     (case map_of (zip ''ABCDEFGHIJKLMNOPQRSTUVWXYZ'' ''abcdefghijklmnopqrstuvwxyz'') c of
        None \<Rightarrow> c
      | Some l \<Rightarrow> l)"

definition py_lower :: "string \<Rightarrow> string" where
  "py_lower s = map lower_char s"

definition is_space :: "char \<Rightarrow> bool" where
  "is_space c = (let n = (of_char c :: nat) in (9 \<le> n \<and> n \<le> 13) \<or> n = 32)"

definition strip :: "string \<Rightarrow> string" where
  "strip s = rev (dropWhile is_space (rev (dropWhile is_space s)))"

definition digit_of :: "char \<Rightarrow> nat option" where
  "digit_of c =
     (let n = (of_char c :: nat) in if 48 \<le> n \<and> n \<le> 57 then Some (n - 48) else None)"

text \<open>
  The digits after the first one; a single underscore may separate two
  digits.
\<close>

fun digits :: "nat \<Rightarrow> string \<Rightarrow> nat option" where
  "digits acc [] = Some acc"
| "digits acc [c] = (case digit_of c of None \<Rightarrow> None | Some v \<Rightarrow> Some (acc * 10 + v))"
| "digits acc (c # d # ds) =
     (if c = CHR ''_''
      then (case digit_of d of None \<Rightarrow> None | Some v \<Rightarrow> digits (acc * 10 + v) ds)
      else (case digit_of c of None \<Rightarrow> None | Some v \<Rightarrow> digits (acc * 10 + v) (d # ds)))"

definition unsigned :: "string \<Rightarrow> nat option" where
  "unsigned s =
     (case s of [] \<Rightarrow> None
      | c # cs \<Rightarrow> (case digit_of c of None \<Rightarrow> None | Some v \<Rightarrow> digits v cs))"

text \<open>\<^verbatim>\<open>int(s)\<close> for a string: the integer, or \<^verbatim>\<open>ValueError\<close>.\<close>

definition py_int :: "string \<Rightarrow> error + int" where
  "py_int s =
     (case strip s of
        [] \<Rightarrow> Inl ValueError
      | c # cs \<Rightarrow>
          if c = CHR ''+'' then (case unsigned cs of None \<Rightarrow> Inl ValueError | Some n \<Rightarrow> Inr (int n))
          else if c = CHR ''-'' then (case unsigned cs of None \<Rightarrow> Inl ValueError | Some n \<Rightarrow> Inr (- int n))
          else (case unsigned (c # cs) of None \<Rightarrow> Inl ValueError | Some n \<Rightarrow> Inr (int n)))"

section \<open>Configuration\<close>

text \<open>
  The dictionary built by \<^verbatim>\<open>load_config\<close>.  Numbers read with \<^verbatim>\<open>float\<close> are
  the rationals their printed form denotes.  The two percentages are
  \<^verbatim>\<open>float(...) or None\<close>.  The three entries read with \<^verbatim>\<open>config.get\<close> may be
  missing from a hand-made dictionary, hence the option; they come from
  \<^verbatim>\<open>os.getenv\<close> and are strings.
\<close>

record config =
  mode :: string
  symbol :: string
  leverage :: int
  startPrice :: rat
  endPrice :: rat
  gridSize :: rat
  positionSizeType :: string
  positionSize :: rat
  enableRangeExitRule :: bool
  rangeExitThresholdPercent :: rat
  tpMode :: string
  takeProfitPercent :: "rat option"
  stopLossPercent :: "rat option"
  dualSidePosition :: bool
  enableMarketPositionLogic :: bool
  analysisIntervalMinutes :: int
  volatilityDetectorMaxRetries :: int
  enablePositionReopen :: bool
  maxConsecutiveGridPositions :: "string option"
  gridBotNeutralOnly :: bool
  maxMarketPositionReopens :: "string option"
  neutralMomentumAction :: "string option"

text \<open>Truthiness of an optional number: \<^verbatim>\<open>None\<close> and zero are false.\<close>

definition truthy :: "rat option \<Rightarrow> bool" where
  "truthy v = (case v of None \<Rightarrow> False | Some x \<Rightarrow> x \<noteq> 0)"

section \<open>Grid generator (\<^verbatim>\<open>src/grid.py\<close>)\<close>

record grid =
  grid_levels :: "rat list"
  grid_width :: rat
  grid_center_price :: rat

text \<open>
  The loop \<^verbatim>\<open>while current_price <= new_end_price\<close>.  It need not terminate
  (a zero or negative interval, or an interval that rounding absorbs), so it
  is a partial function: \<open>None\<close> is a run that never returns.
\<close>

partial_function (option) generate_loop :: "rat \<Rightarrow> rat \<Rightarrow> rat \<Rightarrow> rat list \<Rightarrow> rat list option" where
  "generate_loop current_price new_end_price interval levels =
     (if current_price \<le> new_end_price
      then generate_loop (dec_add current_price interval) new_end_price interval
             (levels @ [current_price])
      else Some levels)"

text \<open>
  \<open>generate\<close> stores the center and the width before it divides, so a raised
  error carries the grid as the exception leaves it.
\<close>

definition generate :: "config \<Rightarrow> rat \<Rightarrow> grid \<Rightarrow> (error \<times> grid + grid) option" where
  "generate cfg center_price g =
     (let g1 = g\<lparr>grid_center_price := center_price,
                 grid_width := dec_sub (endPrice cfg) (startPrice cfg)\<rparr>
      in case dec_div (grid_width g1) (gridSize cfg) of
           Inl e \<Rightarrow> Some (Inl (e, g1))
         | Inr interval \<Rightarrow>
             (let new_start_price = dec_sub (grid_center_price g1) (dec_quot (grid_width g1) 2);
                  new_end_price = dec_add (grid_center_price g1) (dec_quot (grid_width g1) 2)
              in case generate_loop new_start_price new_end_price interval [] of
                   None \<Rightarrow> None
                 | Some levels \<Rightarrow> Some (Inr (g1\<lparr>grid_levels := levels\<rparr>))))"

text \<open>
  The levels as the specification writes them, in exact arithmetic:
  \<open>L\<^sub>k = C - W/2 + k\<cdot>(W/D)\<close> for \<open>k = 0 \<dots> \<lfloor>W/(W/D)\<rfloor>\<close>.
\<close>

definition spec_width :: "config \<Rightarrow> rat" where
  "spec_width cfg = endPrice cfg - startPrice cfg"

definition spec_interval :: "config \<Rightarrow> rat" where
  "spec_interval cfg = spec_width cfg / gridSize cfg"

definition spec_count :: "config \<Rightarrow> nat" where
  "spec_count cfg = nat \<lfloor>spec_width cfg / spec_interval cfg\<rfloor> + 1"

definition spec_level :: "config \<Rightarrow> rat \<Rightarrow> nat \<Rightarrow> rat" where
  "spec_level cfg c k = c - spec_width cfg / 2 + of_nat k * spec_interval cfg"

definition spec_levels :: "config \<Rightarrow> rat \<Rightarrow> rat list" where
  "spec_levels cfg c = map (spec_level cfg c) [0..<spec_count cfg]"

text \<open>A number is exact when the context rounding leaves it as it is.\<close>

definition exact :: "rat \<Rightarrow> bool" where
  "exact x = (rnd x = x)"

section \<open>The exchange gateway\<close>

text \<open>
  The gateway is outside the bot.  Each of its methods catches its own
  exceptions and reports a failure as \<^verbatim>\<open>None\<close>, so a call is a reply and a
  record of the request.  The replies are scripted: the \<open>n\<close>-th call of a
  method gets the \<open>n\<close>-th reply of that method, and every run of the real
  gateway is one such script.  A reply to \<^verbatim>\<open>create_order\<close> or
  \<^verbatim>\<open>close_position_market\<close> is modelled by its truth value.  The amount and
  the entry price of a position are taken to be numeric strings, as the
  gateway builds them.
\<close>

record position_info =
  positionAmt :: rat
  entryPrice :: rat

record order_request =
  order_symbol :: string
  order_type :: string
  order_quantity :: rat
  order_side :: string
  order_price :: "rat option"
  order_position_side :: string

record close_request =
  close_symbol :: string
  close_quantity :: rat
  close_side :: string
  close_position_side :: string

record exchange =
  price_replies :: "nat \<Rightarrow> rat option"
  order_replies :: "nat \<Rightarrow> bool"
  position_replies :: "nat \<Rightarrow> position_info option"
  close_replies :: "nat \<Rightarrow> bool"
  price_calls :: nat
  orders :: "order_request list"
  position_calls :: nat
  closes :: "close_request list"
  cancel_all_calls :: nat
  close_all_calls :: nat

definition get_market_price :: "exchange \<Rightarrow> rat option \<times> exchange" where
  "get_market_price ex = (price_replies ex (price_calls ex), ex\<lparr>price_calls := price_calls ex + 1\<rparr>)"

definition create_order :: "exchange \<Rightarrow> order_request \<Rightarrow> bool \<times> exchange" where
  "create_order ex req = (order_replies ex (length (orders ex)), ex\<lparr>orders := orders ex @ [req]\<rparr>)"

definition get_position_information :: "exchange \<Rightarrow> position_info option \<times> exchange" where
  "get_position_information ex =
     (position_replies ex (position_calls ex), ex\<lparr>position_calls := position_calls ex + 1\<rparr>)"

definition close_position_market :: "exchange \<Rightarrow> close_request \<Rightarrow> bool \<times> exchange" where
  "close_position_market ex req =
     (close_replies ex (length (closes ex)), ex\<lparr>closes := closes ex @ [req]\<rparr>)"

definition cancel_all_open_orders :: "exchange \<Rightarrow> exchange" where
  "cancel_all_open_orders ex = ex\<lparr>cancel_all_calls := cancel_all_calls ex + 1\<rparr>"

definition close_all_positions :: "exchange \<Rightarrow> exchange" where
  "close_all_positions ex = ex\<lparr>close_all_calls := close_all_calls ex + 1\<rparr>"

text \<open>The format \<^verbatim>\<open>:.8f\<close>: eight decimal places, ties to even.\<close>

definition fmt8 :: "rat \<Rightarrow> rat" where
  "fmt8 x = of_int (round_half_even (x * 100000000)) / 100000000"

section \<open>Exit conditions (\<^verbatim>\<open>src/risk.py\<close>)\<close>

definition get_maxConsecutiveGridPositions :: "config \<Rightarrow> string" where
  "get_maxConsecutiveGridPositions cfg =
     (case maxConsecutiveGridPositions cfg of None \<Rightarrow> ''3'' | Some s \<Rightarrow> s)"

definition check_max_consecutive_positions :: "config \<Rightarrow> int \<Rightarrow> bool" where
  "check_max_consecutive_positions cfg position_counter =
     (let max_positions_str = get_maxConsecutiveGridPositions cfg
      in if py_lower max_positions_str = ''unlimited'' then False
         else (case py_int max_positions_str of
                 Inr max_positions \<Rightarrow> max_positions \<le> position_counter
               | Inl e \<Rightarrow> False))"

definition check_range_exit_rule :: "config \<Rightarrow> grid \<Rightarrow> rat \<Rightarrow> bool" where
  "check_range_exit_rule cfg g current_price_dec =
     (let active_grid_lower_boundary = dec_sub (grid_center_price g) (dec_quot (grid_width g) 2);
          active_grid_upper_boundary = dec_add (grid_center_price g) (dec_quot (grid_width g) 2);
          threshold_percent = dec_quot (rangeExitThresholdPercent cfg) 100;
          exit_threshold_amount = dec_mul (grid_width g) threshold_percent;
          upper_exit_price = dec_add active_grid_upper_boundary exit_threshold_amount;
          lower_exit_price = dec_sub active_grid_lower_boundary exit_threshold_amount
      in upper_exit_price \<le> current_price_dec \<or> current_price_dec \<le> lower_exit_price)"

text \<open>
  \<^verbatim>\<open>Decimal(str(x))\<close> raises when \<open>x\<close> is \<^verbatim>\<open>None\<close>; the two helpers are only
  called behind a truthiness test, and the branch is kept to show it.
\<close>

definition check_stop_loss :: "config \<Rightarrow> rat \<Rightarrow> rat option \<Rightarrow> error + bool" where
  "check_stop_loss cfg current_price_dec entry_price =
     (case entry_price of
        None \<Rightarrow> Inl ConversionSyntax
      | Some entry_price_dec \<Rightarrow>
          (case stopLossPercent cfg of
             None \<Rightarrow> Inl ConversionSyntax
           | Some sl \<Rightarrow>
               (let sl_percent = dec_quot sl 100
                in if mode cfg = ''long''
                   then Inr (current_price_dec \<le> dec_mul entry_price_dec (dec_sub 1 sl_percent))
                   else if mode cfg = ''short''
                   then Inr (dec_mul entry_price_dec (dec_add 1 sl_percent) \<le> current_price_dec)
                   else Inr False)))"

definition check_take_profit :: "config \<Rightarrow> rat \<Rightarrow> rat option \<Rightarrow> error + bool" where
  "check_take_profit cfg current_price_dec entry_price =
     (case entry_price of
        None \<Rightarrow> Inl ConversionSyntax
      | Some entry_price_dec \<Rightarrow>
          (case takeProfitPercent cfg of
             None \<Rightarrow> Inl ConversionSyntax
           | Some tp \<Rightarrow>
               (let tp_percent = dec_quot tp 100
                in if mode cfg = ''long''
                   then Inr (dec_mul entry_price_dec (dec_add 1 tp_percent) \<le> current_price_dec)
                   else if mode cfg = ''short''
                   then Inr (current_price_dec \<le> dec_mul entry_price_dec (dec_sub 1 tp_percent))
                   else Inr False)))"

text \<open>
  The reasons are the strings the method returns; \<open>Inr None\<close> is the return
  value \<^verbatim>\<open>None\<close>.  The argument \<^verbatim>\<open>open_positions\<close> is not read.
\<close>

definition check_exit_conditions ::
  "config \<Rightarrow> grid \<Rightarrow> rat \<Rightarrow> position_info list \<Rightarrow> int \<Rightarrow> rat option \<Rightarrow> error + string option" where
  "check_exit_conditions cfg g current_price open_positions position_counter entry_price =
     (if check_max_consecutive_positions cfg position_counter
      then Inr (Some ''Max Consecutive Positions Triggered'')
      else
        (case (if truthy (stopLossPercent cfg) \<and> truthy entry_price
               then check_stop_loss cfg current_price entry_price else Inr False) of
           Inl e \<Rightarrow> Inl e
         | Inr True \<Rightarrow> Inr (Some ''Stop Loss Triggered'')
         | Inr False \<Rightarrow>
             (case (if truthy (takeProfitPercent cfg) \<and> truthy entry_price
                    then check_take_profit cfg current_price entry_price else Inr False) of
                Inl e \<Rightarrow> Inl e
              | Inr True \<Rightarrow> Inr (Some ''Take Profit Triggered'')
              | Inr False \<Rightarrow>
                  (if enableRangeExitRule cfg \<and> check_range_exit_rule cfg g current_price
                   then Inr (Some ''Range Exit Rule Triggered'')
                   else Inr None))))"

section \<open>Reopen queue (\<^verbatim>\<open>src/position_reopen_manager.py\<close>)\<close>

record reopen_entry =
  grid_level :: rat
  side :: string
  quantity :: rat
  position_idx :: string

definition add_position_to_reopen ::
  "reopen_entry list \<Rightarrow> rat \<Rightarrow> string \<Rightarrow> rat \<Rightarrow> string \<Rightarrow> reopen_entry list" where
  "add_position_to_reopen positions_to_reopen level sd qty idx =
     positions_to_reopen @ [\<lparr>grid_level = level, side = sd, quantity = qty, position_idx = idx\<rparr>]"

definition get_position_side_from_idx :: "string \<Rightarrow> string" where
  "get_position_side_from_idx idx =
     (if idx = ''0'' then ''LONG'' else if idx = ''1'' then ''SHORT''
      else if idx = ''2'' then ''BOTH'' else ''BOTH'')"

definition reopen_order :: "config \<Rightarrow> reopen_entry \<Rightarrow> order_request" where
  "reopen_order cfg position_data =
     \<lparr>order_symbol = symbol cfg, order_type = ''LIMIT'', order_quantity = quantity position_data,
      order_side = side position_data, order_price = Some (fmt8 (grid_level position_data)),
      order_position_side = get_position_side_from_idx (position_idx position_data)\<rparr>"

text \<open>
  The loop runs over a copy of the queue and removes from the queue itself.
  \<^verbatim>\<open>list.remove\<close> deletes the first entry equal to its argument and raises
  when there is none; the \<^verbatim>\<open>except\<close> clause of the loop body then keeps the
  queue and the count as they are.
\<close>

fun reopen_loop ::
  "config \<Rightarrow> reopen_entry list \<Rightarrow> reopen_entry list \<times> exchange \<times> nat \<Rightarrow>
   reopen_entry list \<times> exchange \<times> nat" where
  "reopen_loop cfg [] st = st"
| "reopen_loop cfg (position_data # rest) (positions_to_reopen, ex, reopened_count) =
     (case create_order ex (reopen_order cfg position_data) of
        (result, ex') \<Rightarrow>
          if result \<and> position_data \<in> set positions_to_reopen
          then reopen_loop cfg rest (remove1 position_data positions_to_reopen, ex', reopened_count + 1)
          else reopen_loop cfg rest (positions_to_reopen, ex', reopened_count))"

definition process_reopen_queue ::
  "config \<Rightarrow> reopen_entry list \<Rightarrow> exchange \<Rightarrow> bool \<times> reopen_entry list \<times> exchange" where
  "process_reopen_queue cfg positions_to_reopen ex =
     (if \<not> enablePositionReopen cfg then (False, positions_to_reopen, ex)
      else if positions_to_reopen = [] then (False, positions_to_reopen, ex)
      else (case reopen_loop cfg positions_to_reopen (positions_to_reopen, ex, 0) of
              (q, ex', reopened_count) \<Rightarrow> (0 < reopened_count, q, ex')))"

definition clear_reopen_queue :: "reopen_entry list \<Rightarrow> reopen_entry list" where
  "clear_reopen_queue positions_to_reopen = []"

definition get_queue_size :: "reopen_entry list \<Rightarrow> nat" where
  "get_queue_size positions_to_reopen = length positions_to_reopen"

text \<open>
  The queue as the specification has it after a drain: the entries whose
  placement failed, in queue order.  \<open>replies\<close> is the gateway's script and
  \<open>k\<close> the number of the call that the first entry gets.
\<close>

fun retained :: "(nat \<Rightarrow> bool) \<Rightarrow> nat \<Rightarrow> 'a list \<Rightarrow> 'a list" where
  "retained replies k [] = []"
| "retained replies k (e # es) =
     (if replies k then retained replies (Suc k) es else e # retained replies (Suc k) es)"

section \<open>Signal-driven position (\<^verbatim>\<open>src/market_position_manager.py\<close>)\<close>

text \<open>
  An analysis result is the JSON object the analyzer prints: keys with a
  string or \<^verbatim>\<open>null\<close> (\<open>None\<close>) as value; numbers are kept as their text.  An
  object is true when it is not empty.
\<close>

type_synonym analysis = "(string \<times> string option) list"

definition dict_get :: "analysis \<Rightarrow> string \<Rightarrow> string option" where
  "dict_get d k = (case map_of d k of None \<Rightarrow> None | Some v \<Rightarrow> v)"

definition py_str :: "string option \<Rightarrow> string" where
  "py_str v = (case v of None \<Rightarrow> ''None'' | Some s \<Rightarrow> s)"

definition truthy_str :: "string option \<Rightarrow> bool" where
  "truthy_str v = (case v of None \<Rightarrow> False | Some s \<Rightarrow> s \<noteq> [])"

definition truthy_dict :: "analysis option \<Rightarrow> bool" where
  "truthy_dict v = (case v of None \<Rightarrow> False | Some d \<Rightarrow> d \<noteq> [])"

text \<open>The targets dictionary; \<open>None\<close> below stands for the empty dictionary.\<close>

record targets =
  target_entry_price :: rat
  target_side :: string
  sl_price :: "rat option"
  tp_price :: "rat option"

record manager =
  last_analysis_time :: "rat option"
  last_analysis_result :: "analysis option"
  market_position :: "string option"
  market_position_entry_price :: "rat option"
  market_position_targets :: "targets option"
  market_position_reopens :: int
  last_signal :: "string option"

definition init_manager :: manager where
  "init_manager =
     \<lparr>last_analysis_time = None, last_analysis_result = None, market_position = None,
      market_position_entry_price = None, market_position_targets = None,
      market_position_reopens = 0, last_signal = None\<rparr>"

text \<open>Time is a number of seconds; \<open>now\<close> is what \<^verbatim>\<open>datetime.now()\<close> returns.\<close>

definition should_run_analysis :: "config \<Rightarrow> manager \<Rightarrow> rat \<Rightarrow> bool" where
  "should_run_analysis cfg st now =
     (case last_analysis_time st of
        None \<Rightarrow> True
      | Some t \<Rightarrow> of_int (analysisIntervalMinutes cfg) * 60 \<le> now - t)"

text \<open>
  The analyzer is a subprocess.  \<open>outcomes k\<close> is what attempt \<open>k\<close> yields:
  \<open>None\<close> for a non-zero exit, empty or unparsable output or a timeout, the
  parsed object otherwise.  An object with the key \<^verbatim>\<open>error\<close> is a failed
  attempt too.  The pauses between attempts are not modelled.
\<close>

fun detector_attempts ::
  "(nat \<Rightarrow> analysis option) \<Rightarrow> nat \<Rightarrow> nat \<Rightarrow> analysis option" where
  "detector_attempts outcomes attempt 0 = None"
| "detector_attempts outcomes attempt (Suc remaining) =
     (case outcomes attempt of
        None \<Rightarrow> detector_attempts outcomes (attempt + 1) remaining
      | Some analysis_result \<Rightarrow>
          if ''error'' \<in> fst ` set analysis_result
          then detector_attempts outcomes (attempt + 1) remaining
          else Some analysis_result)"

definition run_volatility_detector_analysis ::
  "config \<Rightarrow> (nat \<Rightarrow> analysis option) \<Rightarrow> rat \<Rightarrow> manager \<Rightarrow> analysis option \<times> manager" where
  "run_volatility_detector_analysis cfg outcomes now st =
     (case detector_attempts outcomes 1 (nat (volatilityDetectorMaxRetries cfg)) of
        None \<Rightarrow> (None, st)
      | Some analysis_result \<Rightarrow> (Some analysis_result, st\<lparr>last_analysis_time := Some now\<rparr>))"

definition get_neutralMomentumAction :: "config \<Rightarrow> string" where
  "get_neutralMomentumAction cfg =
     (case neutralMomentumAction cfg of None \<Rightarrow> ''stop'' | Some s \<Rightarrow> s)"

definition determine_action :: "config \<Rightarrow> analysis \<Rightarrow> manager \<Rightarrow> string option \<times> manager" where
  "determine_action cfg analysis_result st =
     (let trend = dict_get analysis_result ''trend'';
          momentum = dict_get analysis_result ''momentum'';
          current_signal = py_str trend @ ''_'' @ py_str momentum;
          st1 = (if truthy_str (last_signal st) \<and> last_signal st \<noteq> Some current_signal
                 then st\<lparr>market_position_reopens := 0\<rparr> else st);
          st2 = st1\<lparr>last_signal := Some current_signal\<rparr>
      in if (case last_analysis_result st2 of
                None \<Rightarrow> False
              | Some previous \<Rightarrow>
                  previous \<noteq> [] \<and> trend = dict_get previous ''trend''
                  \<and> momentum = dict_get previous ''momentum'')
         then (None, st2)
         else
           (let st3 = st2\<lparr>last_analysis_result := Some analysis_result\<rparr>
            in if trend = Some ''UPTREND'' \<and> momentum = Some ''OVERBOUGHT''
               then (Some ''OPEN_LONG'', st3)
               else if trend = Some ''DOWNTREND'' \<and> momentum = Some ''OVERSOLD''
               then (Some ''OPEN_SHORT'', st3)
               else if momentum = Some ''NEUTRAL''
               then (if py_lower (get_neutralMomentumAction cfg) = ''stop''
                     then (Some ''CLOSE'', st3) else (None, st3))
               else (None, st3)))"

definition calculate_market_position_targets :: "config \<Rightarrow> rat \<Rightarrow> string \<Rightarrow> targets" where
  "calculate_market_position_targets cfg entry sd =
     \<lparr>target_entry_price = entry, target_side = sd,
      sl_price =
        (case stopLossPercent cfg of
           None \<Rightarrow> None
         | Some sl \<Rightarrow>
             if sl = 0 then None
             else if sd = ''BUY'' then Some (entry * (1 - sl / 100))
             else Some (entry * (1 + sl / 100))),
      tp_price =
        (case takeProfitPercent cfg of
           None \<Rightarrow> None
         | Some tp \<Rightarrow>
             if tp = 0 then None
             else if sd = ''BUY'' then Some (entry * (1 + tp / 100))
             else Some (entry * (1 - tp / 100)))\<rparr>"

text \<open>
  With the size given in quote currency the quantity is a float division,
  which raises on a zero price; the method catches it and returns
  \<^verbatim>\<open>False\<close>.
\<close>

definition open_market_position ::
  "config \<Rightarrow> string \<Rightarrow> rat \<Rightarrow> manager \<Rightarrow> exchange \<Rightarrow> bool \<times> manager \<times> exchange" where
  "open_market_position cfg sd current_price st ex =
     (if positionSizeType cfg = ''QUOTE'' \<and> current_price = 0 then (False, st, ex)
      else
        (let qty = (if positionSizeType cfg = ''QUOTE'' then positionSize cfg / current_price
                    else positionSize cfg)
         in case create_order ex
                   \<lparr>order_symbol = symbol cfg, order_type = ''MARKET'', order_quantity = qty,
                    order_side = sd, order_price = None,
                    order_position_side = (if sd = ''BUY'' then ''LONG'' else ''SHORT'')\<rparr> of
              (result, ex') \<Rightarrow>
                if result
                then (True,
                      st\<lparr>market_position := Some sd,
                         market_position_entry_price := Some current_price,
                         market_position_targets :=
                           Some (calculate_market_position_targets cfg current_price sd)\<rparr>,
                      ex')
                else (False, st, ex')))"

text \<open>
  \<^verbatim>\<open>close_market_position\<close> returns \<^verbatim>\<open>True\<close>, \<^verbatim>\<open>False\<close> or, with
  \<^verbatim>\<open>reopen_on_tp_sl\<close>, the pair of \<^verbatim>\<open>True\<close> and the side that was closed; the
  second component below is that side.
\<close>

definition close_market_position ::
  "config \<Rightarrow> bool \<Rightarrow> manager \<Rightarrow> exchange \<Rightarrow> (bool \<times> string option) \<times> manager \<times> exchange" where
  "close_market_position cfg reopen_on_tp_sl st ex =
     (if \<not> truthy_str (market_position st) then ((True, None), st, ex)
      else
        (case get_position_information ex of
           (position_info, ex1) \<Rightarrow>
             (let none_found =
                    ((True, None),
                     st\<lparr>market_position := None, market_position_targets := None\<rparr>, ex1)
              in case position_info of
                   None \<Rightarrow> none_found
                 | Some p \<Rightarrow>
                     if positionAmt p = 0 then none_found
                     else
                       (let position_amt = positionAmt p;
                            close_sd = (if 0 < position_amt then ''SELL'' else ''BUY'')
                        in case close_position_market ex1
                                  \<lparr>close_symbol = symbol cfg, close_quantity = \<bar>position_amt\<bar>,
                                   close_side = close_sd,
                                   close_position_side =
                                     (if 0 < position_amt then ''LONG'' else ''SHORT'')\<rparr> of
                             (result, ex2) \<Rightarrow>
                               if result
                               then ((True,
                                      if reopen_on_tp_sl
                                      then Some (if 0 < position_amt then ''BUY'' else ''SELL'')
                                      else None),
                                     st\<lparr>market_position := None,
                                        market_position_entry_price := None,
                                        market_position_targets := None\<rparr>,
                                     ex2)
                               else ((False, None), st, ex2)))))"

definition check_market_position_tp_sl :: "manager \<Rightarrow> rat \<Rightarrow> string option" where
  "check_market_position_tp_sl st current_price =
     (if \<not> truthy_str (market_position st) then None
      else
        (case market_position_targets st of
           None \<Rightarrow> None
         | Some tg \<Rightarrow>
             if (case tp_price tg of
                   None \<Rightarrow> False
                 | Some tp \<Rightarrow>
                     (target_side tg = ''BUY'' \<and> tp \<le> current_price)
                     \<or> (target_side tg = ''SELL'' \<and> current_price \<le> tp))
             then Some ''TAKE_PROFIT''
             else if (case sl_price tg of
                        None \<Rightarrow> False
                      | Some sl \<Rightarrow>
                          (target_side tg = ''BUY'' \<and> current_price \<le> sl)
                          \<or> (target_side tg = ''SELL'' \<and> sl \<le> current_price))
             then Some ''STOP_LOSS''
             else None))"

definition get_maxMarketPositionReopens :: "config \<Rightarrow> string" where
  "get_maxMarketPositionReopens cfg =
     (case maxMarketPositionReopens cfg of None \<Rightarrow> ''unlimited'' | Some s \<Rightarrow> s)"

definition can_reopen_market_position :: "config \<Rightarrow> manager \<Rightarrow> bool" where
  "can_reopen_market_position cfg st =
     (let max_reopens_str = get_maxMarketPositionReopens cfg
      in if py_lower max_reopens_str = ''unlimited'' then True
         else (case py_int max_reopens_str of
                 Inr max_reopens \<Rightarrow> \<not> max_reopens \<le> market_position_reopens st
               | Inl e \<Rightarrow> True))"

definition process_analysis ::
  "config \<Rightarrow> rat \<Rightarrow> rat \<Rightarrow> (nat \<Rightarrow> analysis option) \<Rightarrow> manager \<Rightarrow> exchange \<Rightarrow>
   bool \<times> manager \<times> exchange" where
  "process_analysis cfg current_price now outcomes st ex =
     (if \<not> enableMarketPositionLogic cfg then (False, st, ex)
      else if \<not> should_run_analysis cfg st now then (False, st, ex)
      else
        (case run_volatility_detector_analysis cfg outcomes now st of
           (None, st1) \<Rightarrow> (False, st1, ex)
         | (Some analysis_result, st1) \<Rightarrow>
             if analysis_result = [] then (False, st1, ex)
             else
               (case determine_action cfg analysis_result st1 of
                  (None, st2) \<Rightarrow> (True, st2, ex)
                | (Some action, st2) \<Rightarrow>
                    if action = ''OPEN_LONG''
                    then
                      (case close_market_position cfg False st2 ex of
                         (was_closed, st3, ex3) \<Rightarrow>
                           (case open_market_position cfg ''BUY'' current_price
                                   (st3\<lparr>market_position_reopens := 0\<rparr>) ex3 of
                              (was_opened, st4, ex4) \<Rightarrow> (True, st4, ex4)))
                    else if action = ''OPEN_SHORT''
                    then
                      (case close_market_position cfg False st2 ex of
                         (was_closed, st3, ex3) \<Rightarrow>
                           (case open_market_position cfg ''SELL'' current_price
                                   (st3\<lparr>market_position_reopens := 0\<rparr>) ex3 of
                              (was_opened, st4, ex4) \<Rightarrow> (True, st4, ex4)))
                    else if action = ''CLOSE''
                    then
                      (case close_market_position cfg False st2 ex of
                         (was_closed, st3, ex3) \<Rightarrow> (True, st3\<lparr>market_position_reopens := 0\<rparr>, ex3))
                    else (True, st2, ex))))"

text \<open>The method does not read \<^verbatim>\<open>tp_sl_trigger\<close> except to log it.\<close>

definition handle_market_position_tp_sl ::
  "config \<Rightarrow> string \<Rightarrow> rat \<Rightarrow> manager \<Rightarrow> exchange \<Rightarrow> bool \<times> manager \<times> exchange" where
  "handle_market_position_tp_sl cfg tp_sl_trigger current_price st ex =
     (if \<not> truthy_str (market_position st) then (False, st, ex)
      else if \<not> can_reopen_market_position cfg st
      then (case close_market_position cfg False st ex of (was_closed, st1, ex1) \<Rightarrow> (False, st1, ex1))
      else if (case last_analysis_result st of
                 None \<Rightarrow> False
               | Some previous \<Rightarrow> previous \<noteq> [] \<and> dict_get previous ''momentum'' = Some ''NEUTRAL'')
      then (case close_market_position cfg False st ex of (was_closed, st1, ex1) \<Rightarrow> (False, st1, ex1))
      else
        (case get_position_information ex of
           (None, ex1) \<Rightarrow> (False, st, ex1)
         | (Some position_info, ex1) \<Rightarrow>
             if positionAmt position_info = 0 then (False, st, ex1)
             else
               (let reopen_side = (if 0 < positionAmt position_info then ''BUY'' else ''SELL'')
                in case close_market_position cfg False st ex1 of
                     (was_closed, st2, ex2) \<Rightarrow>
                       (case open_market_position cfg reopen_side current_price
                               (st2\<lparr>market_position_reopens := market_position_reopens st2 + 1\<rparr>)
                               ex2 of
                          (was_opened, st3, ex3) \<Rightarrow> (True, st3, ex3)))))"

text \<open>
  The methods of the manager that change its state, as calls with their
  arguments.  The other methods (\<open>should_run_analysis\<close>,
  \<open>check_market_position_tp_sl\<close>, \<open>can_reopen_market_position\<close> and the
  target calculation) only read it.
\<close>

datatype manager_call =
    ProcessAnalysis rat rat "nat \<Rightarrow> analysis option"
  | HandleMarketPositionTpSl string rat
  | DetermineAction analysis
  | RunVolatilityDetectorAnalysis "nat \<Rightarrow> analysis option" rat
  | OpenMarketPosition string rat
  | CloseMarketPosition bool

fun manager_step :: "config \<Rightarrow> manager_call \<Rightarrow> manager \<times> exchange \<Rightarrow> manager \<times> exchange" where
  "manager_step cfg (ProcessAnalysis current_price now outcomes) (st, ex) =
     snd (process_analysis cfg current_price now outcomes st ex)"
| "manager_step cfg (HandleMarketPositionTpSl tp_sl_trigger current_price) (st, ex) =
     snd (handle_market_position_tp_sl cfg tp_sl_trigger current_price st ex)"
| "manager_step cfg (DetermineAction analysis_result) (st, ex) =
     (snd (determine_action cfg analysis_result st), ex)"
| "manager_step cfg (RunVolatilityDetectorAnalysis outcomes now) (st, ex) =
     (snd (run_volatility_detector_analysis cfg outcomes now st), ex)"
| "manager_step cfg (OpenMarketPosition sd current_price) (st, ex) =
     snd (open_market_position cfg sd current_price st ex)"
| "manager_step cfg (CloseMarketPosition reopen_on_tp_sl) (st, ex) =
     snd (close_market_position cfg reopen_on_tp_sl st ex)"

section \<open>The bot loop (\<^verbatim>\<open>src/bot.py\<close>)\<close>

record grid_targets =
  entry_price_target :: rat
  position_side_target :: string
  sl_price_target :: "rat option"
  tp_price_target :: "rat option"

text \<open>
  The state the bot owns.  The risk manager has no state of its own; the
  reopen manager's state is its queue.  \<open>None\<close> for \<open>position_targets\<close> is the
  empty dictionary.
\<close>

record bot =
  grid_state :: grid
  market_position_manager :: manager
  positions_to_reopen :: "reopen_entry list"
  is_grid_active :: bool
  open_positions :: "position_info list"
  position_counter :: int
  position_targets :: "grid_targets option"
  last_position_amt :: rat
  last_entry_price :: "rat option"
  last_position_side :: "string option"

datatype tick_result = Returned bot exchange | Exited bot exchange | Raised error

definition find_next_grid_level :: "config \<Rightarrow> grid \<Rightarrow> rat \<Rightarrow> rat option" where
  "find_next_grid_level cfg g entry =
     (if grid_levels g = [] then None
      else if mode cfg = ''long'' then find (\<lambda>level. entry < level) (sort (grid_levels g))
      else if mode cfg = ''short'' then find (\<lambda>level. level < entry) (rev (sort (grid_levels g)))
      else None)"

definition calculate_tp_sl_targets :: "config \<Rightarrow> grid \<Rightarrow> rat \<Rightarrow> string \<Rightarrow> grid_targets" where
  "calculate_tp_sl_targets cfg g entry position_side =
     \<lparr>entry_price_target = entry, position_side_target = position_side,
      sl_price_target =
        (case stopLossPercent cfg of
           None \<Rightarrow> None
         | Some sl \<Rightarrow>
             if sl = 0 then None
             else if mode cfg = ''long'' then Some (entry * (1 - sl / 100))
             else if mode cfg = ''short'' then Some (entry * (1 + sl / 100))
             else None),
      tp_price_target =
        (if tpMode cfg = ''PERCENTAGE''
         then (case takeProfitPercent cfg of
                 None \<Rightarrow> None
               | Some tp \<Rightarrow>
                   if tp = 0 then None
                   else if mode cfg = ''long'' then Some (entry * (1 + tp / 100))
                   else if mode cfg = ''short'' then Some (entry * (1 - tp / 100))
                   else None)
         else if tpMode cfg = ''GRID_RANGE''
         then (case find_next_grid_level cfg g entry of
                 None \<Rightarrow> None
               | Some tp \<Rightarrow> if tp = 0 then None else Some tp)
         else None)\<rparr>"

definition check_tp_sl_targets :: "config \<Rightarrow> grid_targets option \<Rightarrow> rat \<Rightarrow> string option" where
  "check_tp_sl_targets cfg position_tgts current_price =
     (case position_tgts of
        None \<Rightarrow> None
      | Some tg \<Rightarrow>
          if (case tp_price_target tg of
                None \<Rightarrow> False
              | Some tp \<Rightarrow>
                  (mode cfg = ''long'' \<and> tp \<le> current_price)
                  \<or> (mode cfg = ''short'' \<and> current_price \<le> tp))
          then Some ''TAKE_PROFIT''
          else if (case sl_price_target tg of
                     None \<Rightarrow> False
                   | Some sl \<Rightarrow>
                       (mode cfg = ''long'' \<and> current_price \<le> sl)
                       \<or> (mode cfg = ''short'' \<and> sl \<le> current_price))
          then Some ''STOP_LOSS''
          else None)"

definition calculate_quantity :: "config \<Rightarrow> rat \<Rightarrow> rat" where
  "calculate_quantity cfg price =
     (if positionSizeType cfg = ''BASE'' then positionSize cfg
      else if positionSizeType cfg = ''QUOTE''
      then (if 0 < price then dec_quot (positionSize cfg) price else 0)
      else 0)"

text \<open>
  \<^verbatim>\<open>round(quantity, 5)\<close> on a Decimal quantizes to five places and raises when
  the result needs more than ten digits.
\<close>

definition py_round5 :: "rat \<Rightarrow> error + rat" where
  "py_round5 q =
     (let r = round_half_even (q * 100000)
      in if 10000000000 \<le> \<bar>r\<bar> then Inl InvalidOperation else Inr (of_int r / 100000))"

text \<open>
  The side of the order at one level.  With a mode other than the three
  that \<^verbatim>\<open>load_config\<close> admits no branch assigns \<^verbatim>\<open>side\<close>, and reading it
  raises.
\<close>

datatype placement = Skip | Place string string | Unbound

definition grid_order_side :: "config \<Rightarrow> rat \<Rightarrow> rat \<Rightarrow> placement" where
  "grid_order_side cfg level_price current_price =
     (if dualSidePosition cfg
      then (if mode cfg = ''long''
            then (if level_price < current_price then Place ''BUY'' ''LONG'' else Skip)
            else if mode cfg = ''short''
            then (if current_price < level_price then Place ''SELL'' ''SHORT'' else Skip)
            else if mode cfg = ''neutral''
            then (if level_price < current_price then Place ''BUY'' ''LONG''
                  else if current_price < level_price then Place ''SELL'' ''SHORT''
                  else Skip)
            else Unbound)
      else (if mode cfg = ''long''
            then (if level_price < current_price then Place ''BUY'' ''BOTH'' else Skip)
            else if mode cfg = ''short''
            then (if current_price < level_price then Place ''SELL'' ''BOTH'' else Skip)
            else if mode cfg = ''neutral''
            then (if level_price < current_price then Place ''BUY'' ''BOTH''
                  else if current_price < level_price then Place ''SELL'' ''BOTH''
                  else Skip)
            else Unbound))"

fun place_grid_orders :: "config \<Rightarrow> rat \<Rightarrow> rat list \<Rightarrow> exchange \<Rightarrow> error + exchange" where
  "place_grid_orders cfg current_price [] ex = Inr ex"
| "place_grid_orders cfg current_price (level_price # rest) ex =
     (case grid_order_side cfg level_price current_price of
        Skip \<Rightarrow> place_grid_orders cfg current_price rest ex
      | p \<Rightarrow>
          (let qty = calculate_quantity cfg level_price
           in if qty \<le> 0 then place_grid_orders cfg current_price rest ex
              else
                (case py_round5 qty of
                   Inl e \<Rightarrow> Inl e
                 | Inr rounded \<Rightarrow>
                     (case p of
                        Place sd position_side \<Rightarrow>
                          place_grid_orders cfg current_price rest
                            (snd (create_order ex
                                    \<lparr>order_symbol = symbol cfg, order_type = ''LIMIT'',
                                     order_quantity = rounded, order_side = sd,
                                     order_price = Some (fmt8 level_price),
                                     order_position_side = position_side\<rparr>))
                      | _ \<Rightarrow> Inl UnboundLocalError))))"

text \<open>
  \<open>run\<close> in four parts, in the order of the method: the reset that an exit
  and the neutral-only rule share, the branch for an active grid, the
  activation of a new grid, and the tick itself.
\<close>

definition reset_grid :: "bot \<Rightarrow> exchange \<Rightarrow> bot \<times> exchange" where
  "reset_grid b ex =
     (let ex1 = cancel_all_open_orders ex;
          ex2 = (if open_positions b \<noteq> [] then close_all_positions ex1 else ex1)
      in (b\<lparr>positions_to_reopen := clear_reopen_queue (positions_to_reopen b),
            position_counter := 0, last_position_amt := 0, last_entry_price := None,
            last_position_side := None, is_grid_active := False, position_targets := None\<rparr>,
          ex2))"

definition position_side_of :: "config \<Rightarrow> rat \<Rightarrow> string" where
  "position_side_of cfg position_amt =
     (if 0 < position_amt then ''LONG'' else if dualSidePosition cfg then ''SHORT'' else ''BOTH'')"

definition track_position :: "config \<Rightarrow> bot \<Rightarrow> error + bot" where
  "track_position cfg b =
     (case open_positions b of
        p # ps \<Rightarrow>
          (let b1 = (if last_position_amt b = 0
                     then b\<lparr>position_counter := position_counter b + 1,
                            position_targets :=
                              Some (calculate_tp_sl_targets cfg (grid_state b) (entryPrice p)
                                      (position_side_of cfg (positionAmt p))),
                            last_entry_price := Some (entryPrice p),
                            last_position_side := Some (position_side_of cfg (positionAmt p))\<rparr>
                     else b)
           in Inr (b1\<lparr>last_position_amt := positionAmt p\<rparr>))
      | [] \<Rightarrow>
          (let cleared = (\<lambda>b'. b'\<lparr>last_position_amt := 0, last_entry_price := None,
                                    last_position_side := None, position_targets := None\<rparr>)
           in if last_position_amt b \<noteq> 0 \<and> enablePositionReopen cfg
              then (case last_entry_price b of
                      None \<Rightarrow> Inl ConversionSyntax
                    | Some level \<Rightarrow>
                        Inr (cleared
                               (b\<lparr>positions_to_reopen :=
                                    (if 0 < last_position_amt b
                                     then add_position_to_reopen (positions_to_reopen b) level
                                            ''SELL'' \<bar>last_position_amt b\<bar> ''1''
                                     else add_position_to_reopen (positions_to_reopen b) level
                                            ''BUY'' \<bar>last_position_amt b\<bar> ''0'')\<rparr>)))
              else Inr (cleared b)))"

definition grid_active_step :: "config \<Rightarrow> rat \<Rightarrow> bot \<Rightarrow> exchange \<Rightarrow> error + bot \<times> exchange" where
  "grid_active_step cfg current_price b ex =
     (case get_position_information ex of
        (position_info, ex1) \<Rightarrow>
          (let b1 = b\<lparr>open_positions :=
                        (case position_info of
                           None \<Rightarrow> []
                         | Some p \<Rightarrow> if positionAmt p \<noteq> 0 then [p] else [])\<rparr>
           in case track_position cfg b1 of
                Inl e \<Rightarrow> Inl e
              | Inr b2 \<Rightarrow>
                  (let entry_price = (case open_positions b2 of [] \<Rightarrow> None
                                      | p # ps \<Rightarrow> Some (entryPrice p));
                       (b3, ex3) =
                         (case check_tp_sl_targets cfg (position_targets b2) current_price of
                            None \<Rightarrow> (b2, ex1)
                          | Some tp_sl_trigger \<Rightarrow>
                              (b2\<lparr>position_targets := None\<rparr>,
                               (case open_positions b2 of
                                  [] \<Rightarrow> ex1
                                | p # ps \<Rightarrow>
                                    snd (close_position_market ex1
                                           \<lparr>close_symbol = symbol cfg,
                                            close_quantity = \<bar>positionAmt p\<bar>,
                                            close_side =
                                              (if 0 < positionAmt p then ''SELL'' else ''BUY''),
                                            close_position_side =
                                              position_side_of cfg (positionAmt p)\<rparr>))))
                   in case check_exit_conditions cfg (grid_state b3) current_price
                             (open_positions b3) (position_counter b3) entry_price of
                        Inl e \<Rightarrow> Inl e
                      | Inr None \<Rightarrow> Inr (b3, ex3)
                      | Inr (Some exit_reason) \<Rightarrow> Inr (reset_grid b3 ex3))))"

definition should_activate_grid :: "config \<Rightarrow> bot \<Rightarrow> bool" where
  "should_activate_grid cfg b =
     (\<not> (gridBotNeutralOnly cfg
         \<and> (case last_analysis_result (market_position_manager b) of
               None \<Rightarrow> False
             | Some previous \<Rightarrow>
                 previous \<noteq> [] \<and> dict_get previous ''momentum'' \<noteq> Some ''NEUTRAL'')))"

definition activate_grid :: "config \<Rightarrow> rat \<Rightarrow> bot \<Rightarrow> exchange \<Rightarrow> (error + bot \<times> exchange) option" where
  "activate_grid cfg current_price b ex =
     (if is_grid_active b \<or> \<not> should_activate_grid cfg b then Some (Inr (b, ex))
      else
        (case generate cfg current_price (grid_state b) of
           None \<Rightarrow> None
         | Some (Inl (e, g)) \<Rightarrow> Some (Inl e)
         | Some (Inr g) \<Rightarrow>
             (case place_grid_orders cfg current_price (grid_levels g) ex of
                Inl e \<Rightarrow> Some (Inl e)
              | Inr ex1 \<Rightarrow> Some (Inr (b\<lparr>grid_state := g, is_grid_active := True\<rparr>, ex1)))))"

definition neutral_only_step :: "config \<Rightarrow> bot \<Rightarrow> exchange \<Rightarrow> bot \<times> exchange" where
  "neutral_only_step cfg b ex =
     (if is_grid_active b \<and> \<not> should_activate_grid cfg b then reset_grid b ex else (b, ex))"

definition market_tp_sl_step :: "config \<Rightarrow> rat \<Rightarrow> bot \<Rightarrow> exchange \<Rightarrow> bot \<times> exchange" where
  "market_tp_sl_step cfg current_price b ex =
     (if truthy_str (market_position (market_position_manager b))
      then (case check_market_position_tp_sl (market_position_manager b) current_price of
              None \<Rightarrow> (b, ex)
            | Some tp_sl_trigger \<Rightarrow>
                (case handle_market_position_tp_sl cfg tp_sl_trigger current_price
                        (market_position_manager b) ex of
                   (reopened, m, ex1) \<Rightarrow> (b\<lparr>market_position_manager := m\<rparr>, ex1)))
      else (b, ex))"

text \<open>
  One tick.  \<open>close_now\<close> says whether the file \<^verbatim>\<open>.close_now\<close> exists; \<open>now\<close> and
  \<open>outcomes\<close> are the clock and the analyzer of \<open>process_analysis\<close>.  A price
  of \<^verbatim>\<open>None\<close> or zero is false in \<^verbatim>\<open>if not price_str\<close>.  \<open>None\<close> is a tick that
  never returns (the grid loop).
\<close>

definition run ::
  "config \<Rightarrow> bool \<Rightarrow> rat \<Rightarrow> (nat \<Rightarrow> analysis option) \<Rightarrow> bot \<Rightarrow> exchange \<Rightarrow> tick_result option" where
  "run cfg close_now now outcomes b ex =
     (if close_now
      then
        (let ex1 = cancel_all_open_orders ex
         in case get_position_information ex1 of
              (position_info, ex2) \<Rightarrow>
                (let b1 = b\<lparr>open_positions :=
                              (case position_info of
                                 None \<Rightarrow> []
                               | Some p \<Rightarrow> if positionAmt p \<noteq> 0 then [p] else [])\<rparr>
                 in Some (Exited b1
                            (if open_positions b1 \<noteq> [] then close_all_positions ex2 else ex2))))
      else
        (case get_market_price ex of
           (price_str, ex1) \<Rightarrow>
             (case (if truthy price_str then price_str else None) of
                None \<Rightarrow> Some (Returned b ex1)
              | Some current_price \<Rightarrow>
               (let (b2, ex2) = market_tp_sl_step cfg current_price b ex1;
                    (reopened, q, ex3) = process_reopen_queue cfg (positions_to_reopen b2) ex2;
                    b3 = b2\<lparr>positions_to_reopen := q\<rparr>
                in case (if is_grid_active b3 then grid_active_step cfg current_price b3 ex3
                         else Inr (b3, ex3)) of
                     Inl e \<Rightarrow> Some (Raised e)
                   | Inr (b4, ex4) \<Rightarrow>
                       (case activate_grid cfg current_price b4 ex4 of
                          None \<Rightarrow> None
                        | Some (Inl e) \<Rightarrow> Some (Raised e)
                        | Some (Inr (b5, ex5)) \<Rightarrow>
                            (case neutral_only_step cfg b5 ex5 of
                               (b6, ex6) \<Rightarrow>
                                 (case process_analysis cfg current_price now outcomes
                                         (market_position_manager b6) ex6 of
                                    (analysis_ran, m, ex7) \<Rightarrow>
                                      Some (Returned (b6\<lparr>market_position_manager := m\<rparr>) ex7))))))))"

section \<open>Example inputs\<close>

text \<open>
  The configuration of the specification's scenarios: long mode, the range
  \<open>[900, 1100]\<close> in four divisions, stop loss 5 %, take profit 10 %.
\<close>

definition scenario_cfg :: config where
  "scenario_cfg =
     \<lparr>mode = ''long'', symbol = ''BTCUSDT'', leverage = 20, startPrice = 900, endPrice = 1100,
      gridSize = 4, positionSizeType = ''QUOTE'', positionSize = 10,
      enableRangeExitRule = True, rangeExitThresholdPercent = 100, tpMode = ''PERCENTAGE'',
      takeProfitPercent = Some 10, stopLossPercent = Some 5, dualSidePosition = False,
      enableMarketPositionLogic = True, analysisIntervalMinutes = 10,
      volatilityDetectorMaxRetries = 3, enablePositionReopen = True,
      maxConsecutiveGridPositions = Some ''3'', gridBotNeutralOnly = False,
      maxMarketPositionReopens = Some ''2'', neutralMomentumAction = Some ''stop''\<rparr>"

definition empty_grid :: grid where
  "empty_grid = \<lparr>grid_levels = [], grid_width = 0, grid_center_price = 0\<rparr>"

text \<open>The same range in seven divisions.\<close>

definition seven_cfg :: config where
  "seven_cfg = scenario_cfg\<lparr>gridSize := 7\<rparr>"

text \<open>Short mode, and the grid-range take-profit mode with a take-profit % left set.\<close>

definition short_cfg :: config where
  "short_cfg = scenario_cfg\<lparr>mode := ''short''\<rparr>"

definition grid_range_cfg :: config where
  "grid_range_cfg = scenario_cfg\<lparr>tpMode := ''GRID_RANGE''\<rparr>"

text \<open>Two limits that \<^verbatim>\<open>int\<close> rejects.\<close>

definition unparsable_cfg :: config where
  "unparsable_cfg =
     scenario_cfg\<lparr>maxConsecutiveGridPositions := Some ''three'',
                  maxMarketPositionReopens := Some ''2.5''\<rparr>"

text \<open>
  A gateway that has not been called yet, with a script for \<^verbatim>\<open>create_order\<close>;
  the entry of the specification's scenario; a configuration with reopening
  switched off.
\<close>

definition scripted_exchange :: "(nat \<Rightarrow> bool) \<Rightarrow> exchange" where
  "scripted_exchange replies =
     \<lparr>price_replies = (\<lambda>n. None), order_replies = replies, position_replies = (\<lambda>n. None),
      close_replies = (\<lambda>n. False), price_calls = 0, orders = [], position_calls = 0,
      closes = [], cancel_all_calls = 0, close_all_calls = 0\<rparr>"

definition scenario_entry :: reopen_entry where
  "scenario_entry = \<lparr>grid_level = 1000, side = ''SELL'', quantity = 1, position_idx = ''1''\<rparr>"

definition no_reopen_cfg :: config where
  "no_reopen_cfg = scenario_cfg\<lparr>enablePositionReopen := False\<rparr>"

text \<open>
  A gateway that rejects the first order and accepts the later ones, one
  that accepts every order, and two drains in a row of the scenario's queue.
\<close>

definition fail_then_succeed :: exchange where
  "fail_then_succeed = scripted_exchange (\<lambda>n. 0 < n)"

definition accepting_exchange :: exchange where
  "accepting_exchange = scripted_exchange (\<lambda>n. True)"

definition first_drain :: "bool \<times> reopen_entry list \<times> exchange" where
  "first_drain = process_reopen_queue scenario_cfg [scenario_entry] fail_then_succeed"

definition second_drain :: "bool \<times> reopen_entry list \<times> exchange" where
  "second_drain =
     process_reopen_queue scenario_cfg (fst (snd first_drain)) (snd (snd first_drain))"

text \<open>
  An analysis with the signal \<open>(UPTREND, OVERBOUGHT)\<close>; a gateway that reports
  a long position of one unit and accepts every order and close; a manager
  holding that position after \<open>k\<close> reopens; an analysis with the opposite
  signal; a negative reopen limit.
\<close>

definition up_overbought :: analysis where
  "up_overbought =
     [(''symbol'', Some ''BTCUSDT''), (''trend'', Some ''UPTREND''),
      (''momentum'', Some ''OVERBOUGHT''), (''stoch_k'', Some ''91.5'')]"

definition live_exchange :: exchange where
  "live_exchange =
     \<lparr>price_replies = (\<lambda>n. Some 1100), order_replies = (\<lambda>n. True),
      position_replies = (\<lambda>n. Some \<lparr>positionAmt = 1, entryPrice = 1000\<rparr>),
      close_replies = (\<lambda>n. True), price_calls = 0, orders = [], position_calls = 0,
      closes = [], cancel_all_calls = 0, close_all_calls = 0\<rparr>"

definition long_manager :: "int \<Rightarrow> manager" where
  "long_manager k =
     \<lparr>last_analysis_time = Some 0, last_analysis_result = Some up_overbought,
      market_position = Some ''BUY'', market_position_entry_price = Some 1000,
      market_position_targets = Some (calculate_market_position_targets scenario_cfg 1000 ''BUY''),
      market_position_reopens = k, last_signal = Some ''UPTREND_OVERBOUGHT''\<rparr>"

definition down_oversold :: analysis where
  "down_oversold =
     [(''symbol'', Some ''BTCUSDT''), (''trend'', Some ''DOWNTREND''),
      (''momentum'', Some ''OVERSOLD''), (''stoch_k'', Some ''8.2'')]"

definition negative_limit_cfg :: config where
  "negative_limit_cfg = scenario_cfg\<lparr>maxMarketPositionReopens := Some ''-1''\<rparr>"

text \<open>
  A take-profit trigger handled with the budget of two reopens spent and
  with one reopen left, and a run of the manager from its initial state: an
  analysis that opens a long position, then three triggers.
\<close>

definition budget_spent :: "bool \<times> manager \<times> exchange" where
  "budget_spent =
     handle_market_position_tp_sl scenario_cfg ''TAKE_PROFIT'' 1100 (long_manager 2) live_exchange"

definition budget_left :: "bool \<times> manager \<times> exchange" where
  "budget_left =
     handle_market_position_tp_sl scenario_cfg ''TAKE_PROFIT'' 1100 (long_manager 1) live_exchange"

definition three_triggers :: "manager_call list" where
  "three_triggers =
     [ProcessAnalysis 1000 0 (\<lambda>n. Some up_overbought),
      HandleMarketPositionTpSl ''TAKE_PROFIT'' 1100,
      HandleMarketPositionTpSl ''TAKE_PROFIT'' 1100,
      HandleMarketPositionTpSl ''TAKE_PROFIT'' 1100]"

text \<open>
  Two analyses in a row with the same signal, the second one ten minutes
  after the first.
\<close>

definition first_analysis :: "bool \<times> manager \<times> exchange" where
  "first_analysis =
     process_analysis scenario_cfg 1000 0 (\<lambda>n. Some up_overbought) init_manager live_exchange"

definition second_analysis :: "bool \<times> manager \<times> exchange" where
  "second_analysis =
     process_analysis scenario_cfg 1000 600 (\<lambda>n. Some up_overbought)
       (fst (snd first_analysis)) (snd (snd first_analysis))"

text \<open>
  A bot in the middle of its work: an active grid, a position being
  tracked, an entry in the reopen queue and a signal-driven position.  And
  two gateways that have no price: one that answers \<^verbatim>\<open>None\<close>, one that answers
  zero.
\<close>

definition busy_bot :: bot where
  "busy_bot =
     \<lparr>grid_state = \<lparr>grid_levels = [900, 950, 1000, 1050, 1100], grid_width = 200,
                     grid_center_price = 1000\<rparr>,
      market_position_manager = long_manager 1,
      positions_to_reopen = [scenario_entry], is_grid_active = True,
      open_positions = [\<lparr>positionAmt = 1, entryPrice = 950\<rparr>], position_counter = 2,
      position_targets = Some (calculate_tp_sl_targets scenario_cfg empty_grid 950 ''LONG''),
      last_position_amt = 1, last_entry_price = Some 950, last_position_side = Some ''LONG''\<rparr>"

definition no_price_exchange :: exchange where
  "no_price_exchange = live_exchange\<lparr>price_replies := (\<lambda>n. None)\<rparr>"

definition zero_price_exchange :: exchange where
  "zero_price_exchange = live_exchange\<lparr>price_replies := (\<lambda>n. Some 0)\<rparr>"

section \<open>Evaluation and arithmetic lemmas\<close>

lemma floor_rat_numeral [simp]:
  "\<lfloor>numeral a / numeral b :: rat\<rfloor> = numeral a div numeral b"
  using floor_divide_of_int_eq [of "numeral a" "numeral b", where ?'a = rat] by simp

lemmas rnd_eval = rnd_def round_half_even_def Let_def

lemmas dec_eval = dec_add_def dec_sub_def dec_mul_def dec_div_def dec_quot_def

lemmas spec_eval = spec_width_def spec_interval_def spec_count_def spec_level_def

section \<open>The grid generator\<close>

text \<open>
  While the sums stay exact the loop walks the arithmetic progression from
  the lower boundary and stops at the first term above the upper one.
\<close>

lemma generate_loop_exact:
  assumes pos: "0 < i"
    and ex: "\<forall>k \<le> n + 1. exact (lo + of_nat k * i)"
    and le: "lo + of_nat n * i \<le> hi"
    and gt: "hi < lo + of_nat (n + 1) * i"
  shows "j \<le> n + 1 \<Longrightarrow>
    generate_loop (lo + of_nat j * i) hi i acc = Some (acc @ map (\<lambda>k. lo + of_nat k * i) [j..<n + 1])"
proof (induction "n + 1 - j" arbitrary: j acc)
  case 0
  then have j: "j = n + 1" by simp
  show ?case using gt unfolding j by (subst generate_loop.simps) simp
next
  case (Suc d)
  then have jn: "j \<le> n" by simp
  have "of_nat j * i \<le> of_nat n * i" using jn pos by (simp add: mult_right_mono)
  then have c: "lo + of_nat j * i \<le> hi" using le by linarith
  have "j + 1 \<le> n + 1" using jn by simp
  with ex have "exact (lo + of_nat (j + 1) * i)" by blast
  then have step: "dec_add (lo + of_nat j * i) i = lo + of_nat (j + 1) * i"
    by (simp add: dec_add_def exact_def algebra_simps)
  have ih: "generate_loop (lo + of_nat (j + 1) * i) hi i (acc @ [lo + of_nat j * i])
     = Some ((acc @ [lo + of_nat j * i]) @ map (\<lambda>k. lo + of_nat k * i) [j + 1..<n + 1])"
    using Suc(1) [of "j + 1"] Suc(2) jn by simp
  have "[j..<n + 1] = j # [j + 1..<n + 1]" using jn by (simp add: upt_conv_Cons)
  then show ?case using c step ih by (subst generate_loop.simps) simp
qed

lemma spec_levels_sorted:
  assumes "0 < spec_interval cfg"
  shows "sorted_wrt (<) (spec_levels cfg c)"
proof -
  have "\<And>a b. a < b \<Longrightarrow> spec_level cfg c a < spec_level cfg c b"
    using assms by (simp add: spec_level_def)
  then show ?thesis
    unfolding spec_levels_def sorted_wrt_map
    by (intro sorted_wrt_mono_rel [OF _ sorted_wrt_upt]) auto
qed

lemma generate_exact:
  assumes lt: "startPrice cfg < endPrice cfg" and d: "0 < gridSize cfg"
    and ew: "exact (spec_width cfg)" and ei: "exact (spec_interval cfg)"
    and eh: "exact (spec_width cfg / 2)"
    and elo: "exact (c - spec_width cfg / 2)" and ehi: "exact (c + spec_width cfg / 2)"
    and ek: "\<forall>k \<le> spec_count cfg. exact (spec_level cfg c k)"
  shows "generate cfg c g = Some (Inr \<lparr>grid_levels = spec_levels cfg c,
           grid_width = spec_width cfg, grid_center_price = c\<rparr>)"
proof -
  define W where "W = spec_width cfg"
  define I where "I = spec_interval cfg"
  define n where "n = nat \<lfloor>W / I\<rfloor>"
  have Wpos: "0 < W" using lt by (simp add: W_def spec_width_def)
  have Ipos: "0 < I" using Wpos d by (simp add: I_def W_def spec_interval_def)
  have q0: "0 \<le> W / I" using Wpos Ipos by simp
  have cnt: "spec_count cfg = n + 1" by (simp add: spec_count_def n_def W_def I_def)
  have nle: "of_nat n \<le> W / I"
  proof -
    have "(of_nat n :: rat) = of_int \<lfloor>W / I\<rfloor>" using q0 by (simp add: n_def)
    then show ?thesis by simp
  qed
  have ngt: "W / I < of_nat (n + 1)"
  proof -
    have "(of_nat (n + 1) :: rat) = of_int \<lfloor>W / I\<rfloor> + 1" using q0 by (simp add: n_def)
    then show ?thesis by linarith
  qed
  have le: "(c - W / 2) + of_nat n * I \<le> c + W / 2"
  proof -
    have "of_nat n * I \<le> W" using nle Ipos by (simp add: pos_le_divide_eq)
    then show ?thesis by simp
  qed
  have gt: "c + W / 2 < (c - W / 2) + of_nat (n + 1) * I"
  proof -
    have "W < of_nat (n + 1) * I" using ngt Ipos by (simp add: pos_divide_less_eq)
    then show ?thesis by simp
  qed
  have ex: "\<forall>k \<le> n + 1. exact ((c - W / 2) + of_nat k * I)"
    using ek by (simp add: cnt spec_level_def W_def I_def)
  have loop: "generate_loop (c - W / 2) (c + W / 2) I [] = Some (spec_levels cfg c)"
    using generate_loop_exact [OF Ipos ex le gt, of 0 "[]"]
    by (simp add: spec_levels_def spec_level_def cnt W_def I_def)
  have w: "dec_sub (endPrice cfg) (startPrice cfg) = W"
    using ew by (simp add: dec_sub_def exact_def W_def spec_width_def)
  have i: "dec_div W (gridSize cfg) = Inr I"
    using ei d by (simp add: dec_div_def exact_def I_def W_def spec_interval_def)
  have h: "dec_quot W 2 = W / 2" using eh by (simp add: dec_quot_def exact_def W_def)
  have lo: "dec_sub c (W / 2) = c - W / 2" using elo by (simp add: dec_sub_def exact_def W_def)
  have hi: "dec_add c (W / 2) = c + W / 2" using ehi by (simp add: dec_add_def exact_def W_def)
  show ?thesis
    by (simp add: generate_def Let_def w i h lo hi loop W_def [symmetric])
qed

lemma scenario_count: "spec_count scenario_cfg = 5"
  by (simp add: spec_eval scenario_cfg_def)

lemma scenario_width: "spec_width scenario_cfg = 200"
  by (simp add: spec_width_def scenario_cfg_def)

lemma scenario_levels: "spec_levels scenario_cfg 1000 = [900, 950, 1000, 1050, 1100]"
  unfolding spec_levels_def scenario_count
  by (simp add: upt_conv_Cons spec_level_def spec_width_def spec_interval_def scenario_cfg_def)

lemma scenario_exact:
  "exact (spec_width scenario_cfg) \<and> exact (spec_interval scenario_cfg)
   \<and> exact (spec_width scenario_cfg / 2)
   \<and> exact (1000 - spec_width scenario_cfg / 2) \<and> exact (1000 + spec_width scenario_cfg / 2)"
  by (simp add: spec_eval scenario_cfg_def exact_def rnd_eval)

lemma scenario_levels_exact:
  "\<forall>k \<le> spec_count scenario_cfg. exact (spec_level scenario_cfg 1000 k)"
  unfolding scenario_count
  by (simp add: le_Suc_eq eval_nat_numeral) (simp add: spec_eval scenario_cfg_def exact_def rnd_eval)

lemma seven_loop:
  "generate_loop 900 1100 (2857142857 / 100000000) [] =
     Some [900, 9285714286 / 10000000, 9571428572 / 10000000, 9857142858 / 10000000,
           1014285714 / 1000000, 1042857143 / 1000000, 1071428572 / 1000000]"
  by (simp add: generate_loop.simps dec_eval rnd_eval)

text \<open>
  C1 (amended).  For a range with \<open>start < end\<close> and a positive number of
  divisions, whenever the width, the interval, the half width, the two
  boundaries and the sums \<open>C - W/2 + k\<cdot>(W/D)\<close> up to the first one above the
  upper boundary are exact in ten-digit decimal arithmetic, \<open>generate\<close>
  returns and replaces whatever levels the grid held by
  \<open>L\<^sub>k = C - W/2 + k\<cdot>(W/D)\<close> for \<open>k = 0 \<dots> \<lfloor>W/(W/D)\<rfloor>\<close>: strictly increasing,
  \<open>\<lfloor>W/(W/D)\<rfloor> + 1\<close> of them.  For center 1000 and the range \<open>[900, 1100]\<close> in
  four divisions the levels are \<open>[900, 950, 1000, 1050, 1100]\<close>.
\<close>

theorem generate_levels_when_exact:
  assumes "startPrice cfg < endPrice cfg" and "0 < gridSize cfg"
    and "exact (spec_width cfg)" and "exact (spec_interval cfg)"
    and "exact (spec_width cfg / 2)"
    and "exact (c - spec_width cfg / 2)" and "exact (c + spec_width cfg / 2)"
    and "\<forall>k \<le> spec_count cfg. exact (spec_level cfg c k)"
  shows "generate cfg c g =
           Some (Inr \<lparr>grid_levels = spec_levels cfg c, grid_width = spec_width cfg,
                      grid_center_price = c\<rparr>)
         \<and> sorted_wrt (<) (spec_levels cfg c)
         \<and> length (spec_levels cfg c) = nat \<lfloor>spec_width cfg / spec_interval cfg\<rfloor> + 1
         \<and> (\<forall>k < length (spec_levels cfg c).
               spec_levels cfg c ! k
                 = c - spec_width cfg / 2 + of_nat k * (spec_width cfg / gridSize cfg))
         \<and> generate scenario_cfg 1000 g =
             Some (Inr \<lparr>grid_levels = [900, 950, 1000, 1050, 1100], grid_width = 200,
                        grid_center_price = 1000\<rparr>)"
proof -
  have "0 < spec_interval cfg"
    using assms(1,2) by (simp add: spec_interval_def spec_width_def)
  then have s: "sorted_wrt (<) (spec_levels cfg c)" by (rule spec_levels_sorted)
  have l: "length (spec_levels cfg c) = nat \<lfloor>spec_width cfg / spec_interval cfg\<rfloor> + 1"
    by (simp add: spec_levels_def spec_count_def)
  have n: "\<forall>k < length (spec_levels cfg c).
      spec_levels cfg c ! k = c - spec_width cfg / 2 + of_nat k * (spec_width cfg / gridSize cfg)"
    by (simp add: spec_levels_def spec_level_def spec_interval_def)
  have "generate scenario_cfg 1000 g =
      Some (Inr \<lparr>grid_levels = spec_levels scenario_cfg 1000,
                 grid_width = spec_width scenario_cfg, grid_center_price = 1000\<rparr>)"
    using scenario_exact scenario_levels_exact
    by (intro generate_exact) (simp_all add: scenario_cfg_def)
  then have sc: "generate scenario_cfg 1000 g =
      Some (Inr \<lparr>grid_levels = [900, 950, 1000, 1050, 1100], grid_width = 200,
                 grid_center_price = 1000\<rparr>)"
    by (simp add: scenario_levels) (simp add: spec_width_def scenario_cfg_def)
  show ?thesis using generate_exact [OF assms] s l n sc by blast
qed

theorem generate_levels_when_exact_witness:
  "startPrice scenario_cfg < endPrice scenario_cfg \<and> 0 < gridSize scenario_cfg
   \<and> exact (spec_width scenario_cfg) \<and> exact (spec_interval scenario_cfg)
   \<and> exact (spec_width scenario_cfg / 2)
   \<and> exact (1000 - spec_width scenario_cfg / 2) \<and> exact (1000 + spec_width scenario_cfg / 2)
   \<and> exact (spec_level scenario_cfg 1000 0) \<and> exact (spec_level scenario_cfg 1000 1)
   \<and> exact (spec_level scenario_cfg 1000 2) \<and> exact (spec_level scenario_cfg 1000 3)
   \<and> exact (spec_level scenario_cfg 1000 4) \<and> exact (spec_level scenario_cfg 1000 5)
   \<and> generate scenario_cfg 1000
        \<lparr>grid_levels = [1, 2, 3], grid_width = 2, grid_center_price = 2\<rparr> =
       Some (Inr \<lparr>grid_levels = [900, 950, 1000, 1050, 1100], grid_width = 200,
                  grid_center_price = 1000\<rparr>)
   \<and> sorted_wrt (<) (spec_levels scenario_cfg 1000)
   \<and> length (spec_levels scenario_cfg 1000) = 5"
proof -
  have a: "startPrice scenario_cfg < endPrice scenario_cfg" by (simp add: scenario_cfg_def)
  have b: "0 < gridSize scenario_cfg" by (simp add: scenario_cfg_def)
  note e = scenario_exact
  note t = generate_levels_when_exact [OF a b e [THEN conjunct1]
      e [THEN conjunct2, THEN conjunct1] e [THEN conjunct2, THEN conjunct2, THEN conjunct1]
      e [THEN conjunct2, THEN conjunct2, THEN conjunct2, THEN conjunct1]
      e [THEN conjunct2, THEN conjunct2, THEN conjunct2, THEN conjunct2] scenario_levels_exact,
      of "\<lparr>grid_levels = [1, 2, 3], grid_width = 2, grid_center_price = 2\<rparr>"]
  have w: "generate scenario_cfg 1000
        \<lparr>grid_levels = [1, 2, 3], grid_width = 2, grid_center_price = 2\<rparr> =
       Some (Inr \<lparr>grid_levels = [900, 950, 1000, 1050, 1100], grid_width = 200,
                  grid_center_price = 1000\<rparr>)"
    using t by blast
  have s: "sorted_wrt (<) (spec_levels scenario_cfg 1000)" using t by blast
  have l: "length (spec_levels scenario_cfg 1000) = 5" by (simp add: scenario_levels)
  have x: "exact (spec_level scenario_cfg 1000 0) \<and> exact (spec_level scenario_cfg 1000 1)
      \<and> exact (spec_level scenario_cfg 1000 2) \<and> exact (spec_level scenario_cfg 1000 3)
      \<and> exact (spec_level scenario_cfg 1000 4) \<and> exact (spec_level scenario_cfg 1000 5)"
    using scenario_levels_exact by (simp add: scenario_count)
  show ?thesis using a b e x w s l by blast
qed

text \<open>
  C1 as stated fails on the code.  For center 1000 and the range
  \<open>[900, 1100]\<close> in seven divisions the interval \<open>200/7\<close> is rounded to
  \<open>28.57142857\<close>, the sums drift upwards, the eighth one is \<open>1100.000001\<close>, and
  the loop returns seven levels where the formula has
  \<open>\<lfloor>W/(W/D)\<rfloor> + 1 = 8\<close>, the last of them 1100.
\<close>

theorem generate_seven_divisions_counterexample:
  "generate seven_cfg 1000 empty_grid =
     Some (Inr \<lparr>grid_levels =
                  [900, 9285714286 / 10000000, 9571428572 / 10000000, 9857142858 / 10000000,
                   1014285714 / 1000000, 1042857143 / 1000000, 1071428572 / 1000000],
                grid_width = 200, grid_center_price = 1000\<rparr>)
   \<and> nat \<lfloor>spec_width seven_cfg / spec_interval seven_cfg\<rfloor> + 1 = 8
   \<and> spec_level seven_cfg 1000 7 = 1100"
  by (simp add: generate_def seven_cfg_def scenario_cfg_def empty_grid_def dec_eval rnd_eval
        seven_loop spec_eval)

section \<open>Limits read from the configuration\<close>

lemmas int_eval = py_int_def strip_def is_space_def unsigned_def digit_of_def

lemma lower_char_u: "lower_char c = CHR ''u'' \<Longrightarrow> c = CHR ''u'' \<or> c = CHR ''U''"
  by (simp add: lower_char_def split: if_splits)

lemma strip_keeps_head:
  assumes "\<not> is_space c"
  shows "\<exists>t. strip (c # cs) = c # t"
proof -
  have "dropWhile is_space (c # cs) = c # cs" using assms by simp
  moreover have "\<exists>zs. dropWhile is_space (rev cs @ [c]) = zs @ [c]"
    using assms by (simp add: dropWhile_append)
  ultimately obtain zs where "strip (c # cs) = rev (zs @ [c])" by (auto simp: strip_def)
  then show ?thesis by simp
qed

lemma py_int_letter:
  assumes "c = CHR ''u'' \<or> c = CHR ''U''"
  shows "py_int (c # cs) = Inl ValueError"
proof -
  have ns: "\<not> is_space c" using assms by (auto simp: is_space_def)
  then obtain t where t: "strip (c # cs) = c # t" using strip_keeps_head by blast
  have "digit_of c = None" using assms by (auto simp: digit_of_def)
  moreover have "c \<noteq> CHR ''+''" "c \<noteq> CHR ''-''" using assms by auto
  ultimately show ?thesis by (simp add: py_int_def t unsigned_def)
qed

text \<open>No spelling of \<^verbatim>\<open>unlimited\<close> is an integer.\<close>

lemma py_int_unlimited: "py_lower s = ''unlimited'' \<Longrightarrow> py_int s = Inl ValueError"
proof -
  assume a: "py_lower s = ''unlimited''"
  then obtain c cs where s: "s = c # cs" by (cases s) (auto simp: py_lower_def)
  then have "lower_char c = CHR ''u''" using a by (simp add: py_lower_def)
  then show ?thesis using lower_char_u py_int_letter s by blast
qed

lemma check_max_finite:
  assumes "py_int (get_maxConsecutiveGridPositions cfg) = Inr limit"
  shows "check_max_consecutive_positions cfg position_count = (limit \<le> position_count)"
proof -
  have "py_lower (get_maxConsecutiveGridPositions cfg) \<noteq> ''unlimited''"
    using assms py_int_unlimited by fastforce
  then show ?thesis using assms by (simp add: check_max_consecutive_positions_def)
qed

lemma can_reopen_finite:
  assumes "py_int (get_maxMarketPositionReopens cfg) = Inr limit"
  shows "can_reopen_market_position cfg st = (market_position_reopens st < limit)"
proof -
  have "py_lower (get_maxMarketPositionReopens cfg) \<noteq> ''unlimited''"
    using assms py_int_unlimited by fastforce
  then show ?thesis using assms by (auto simp: can_reopen_market_position_def)
qed

section \<open>The exit conditions\<close>

lemma check_stop_loss_total:
  "truthy (stopLossPercent cfg) \<Longrightarrow> truthy entry \<Longrightarrow> \<exists>b. check_stop_loss cfg price entry = Inr b"
  by (auto simp: truthy_def check_stop_loss_def Let_def split: option.splits)

lemma check_take_profit_total:
  "truthy (takeProfitPercent cfg) \<Longrightarrow> truthy entry \<Longrightarrow> \<exists>b. check_take_profit cfg price entry = Inr b"
  by (auto simp: truthy_def check_take_profit_def Let_def split: option.splits)

text \<open>
  C2.  The specification has the take-profit percentage of
  \<open>check_exit_conditions\<close> evaluated only when \<open>tpMode\<close> is \<^verbatim>\<open>PERCENTAGE\<close>, so
  that under \<^verbatim>\<open>GRID_RANGE\<close> the take-profit reason is never returned.  The
  per-position targets do that (\<open>calculate_tp_sl_targets\<close> uses the
  take-profit % only when \<open>tpMode\<close> is \<^verbatim>\<open>PERCENTAGE\<close>), but
  \<open>check_exit_conditions\<close> never reads \<open>tpMode\<close>: its result is the same for
  every value of it, and with \<open>tpMode\<close> set to \<^verbatim>\<open>GRID_RANGE\<close>, a take profit of
  10 %, entry 1000 and price 1100 it returns the take-profit reason.
\<close>

theorem check_exit_conditions_ignores_tpMode:
  "check_exit_conditions (cfg\<lparr>tpMode := m\<rparr>) g price ops position_count entry
     = check_exit_conditions cfg g price ops position_count entry
   \<and> tpMode grid_range_cfg = ''GRID_RANGE''
   \<and> takeProfitPercent grid_range_cfg = Some 10
   \<and> check_exit_conditions grid_range_cfg empty_grid 1100 [] 1 (Some 1000)
       = Inr (Some ''Take Profit Triggered'')
   \<and> tp_price_target (calculate_tp_sl_targets grid_range_cfg empty_grid 1000 ''LONG'') = None"
proof -
  have 1: "check_exit_conditions (cfg\<lparr>tpMode := m\<rparr>) g price ops position_count entry
     = check_exit_conditions cfg g price ops position_count entry"
  proof -
    have a: "check_max_consecutive_positions (cfg\<lparr>tpMode := m\<rparr>) position_count
        = check_max_consecutive_positions cfg position_count"
      by (simp add: check_max_consecutive_positions_def get_maxConsecutiveGridPositions_def)
    have b: "check_stop_loss (cfg\<lparr>tpMode := m\<rparr>) price entry = check_stop_loss cfg price entry"
      by (simp add: check_stop_loss_def Let_def split: option.splits cong: if_cong)
    have c: "check_take_profit (cfg\<lparr>tpMode := m\<rparr>) price entry
        = check_take_profit cfg price entry"
      by (simp add: check_take_profit_def Let_def split: option.splits cong: if_cong)
    have d: "check_range_exit_rule (cfg\<lparr>tpMode := m\<rparr>) g price
        = check_range_exit_rule cfg g price"
      by (simp add: check_range_exit_rule_def)
    have e: "stopLossPercent (cfg\<lparr>tpMode := m\<rparr>) = stopLossPercent cfg"
      "takeProfitPercent (cfg\<lparr>tpMode := m\<rparr>) = takeProfitPercent cfg"
      "enableRangeExitRule (cfg\<lparr>tpMode := m\<rparr>) = enableRangeExitRule cfg"
      by simp_all
    show ?thesis unfolding check_exit_conditions_def a b c d e ..
  qed
  have 2: "check_max_consecutive_positions grid_range_cfg 1 = False"
    by (simp add: check_max_consecutive_positions_def get_maxConsecutiveGridPositions_def
        grid_range_cfg_def scenario_cfg_def py_lower_def lower_char_def int_eval)
  have 3: "check_stop_loss grid_range_cfg 1100 (Some 1000) = Inr False"
    by (simp add: check_stop_loss_def grid_range_cfg_def scenario_cfg_def dec_eval rnd_eval)
  have 4: "check_take_profit grid_range_cfg 1100 (Some 1000) = Inr True"
    by (simp add: check_take_profit_def grid_range_cfg_def scenario_cfg_def dec_eval rnd_eval)
  have 5: "truthy (stopLossPercent grid_range_cfg) \<and> truthy (takeProfitPercent grid_range_cfg)"
    by (simp add: truthy_def grid_range_cfg_def scenario_cfg_def)
  have 6: "check_exit_conditions grid_range_cfg empty_grid 1100 [] 1 (Some 1000)
       = Inr (Some ''Take Profit Triggered'')"
    using 2 3 4 5 by (simp add: check_exit_conditions_def truthy_def)
  have 7: "tp_price_target (calculate_tp_sl_targets grid_range_cfg empty_grid 1000 ''LONG'') = None"
    by (simp add: calculate_tp_sl_targets_def find_next_grid_level_def grid_range_cfg_def
        scenario_cfg_def empty_grid_def)
  show ?thesis using 1 6 7 by (simp add: grid_range_cfg_def scenario_cfg_def)
qed

text \<open>
  C3.  With a finite limit that the position count has reached,
  \<open>check_exit_conditions\<close> returns the max-consecutive-positions reason
  whatever the stop loss says, never the stop-loss reason; and when the
  max-consecutive-positions check does not trip, stop loss, take profit and
  range exit are taken in this order, each one only when the ones before it
  have not tripped.
\<close>

theorem exit_conditions_priority:
  assumes "py_int (get_maxConsecutiveGridPositions cfg) = Inr limit"
    and "limit \<le> position_count"
  shows "check_exit_conditions cfg g price ops position_count entry
           = Inr (Some ''Max Consecutive Positions Triggered'')
     \<and> check_exit_conditions cfg g price ops position_count entry
           \<noteq> Inr (Some ''Stop Loss Triggered'')
     \<and> (\<not> check_max_consecutive_positions cfg n \<longrightarrow>
          check_exit_conditions cfg g price ops n entry =
            (if truthy (stopLossPercent cfg) \<and> truthy entry
                \<and> check_stop_loss cfg price entry = Inr True
             then Inr (Some ''Stop Loss Triggered'')
             else if truthy (takeProfitPercent cfg) \<and> truthy entry
                \<and> check_take_profit cfg price entry = Inr True
             then Inr (Some ''Take Profit Triggered'')
             else if enableRangeExitRule cfg \<and> check_range_exit_rule cfg g price
             then Inr (Some ''Range Exit Rule Triggered'')
             else Inr None))"
proof -
  have m: "check_max_consecutive_positions cfg position_count"
    using assms by (simp add: check_max_finite)
  have a: "check_exit_conditions cfg g price ops position_count entry
           = Inr (Some ''Max Consecutive Positions Triggered'')"
    using m by (simp add: check_exit_conditions_def)
  have b: "\<not> check_max_consecutive_positions cfg n \<longrightarrow>
          check_exit_conditions cfg g price ops n entry =
            (if truthy (stopLossPercent cfg) \<and> truthy entry
                \<and> check_stop_loss cfg price entry = Inr True
             then Inr (Some ''Stop Loss Triggered'')
             else if truthy (takeProfitPercent cfg) \<and> truthy entry
                \<and> check_take_profit cfg price entry = Inr True
             then Inr (Some ''Take Profit Triggered'')
             else if enableRangeExitRule cfg \<and> check_range_exit_rule cfg g price
             then Inr (Some ''Range Exit Rule Triggered'')
             else Inr None)"
  proof
    assume nm: "\<not> check_max_consecutive_positions cfg n"
    show "check_exit_conditions cfg g price ops n entry =
            (if truthy (stopLossPercent cfg) \<and> truthy entry
                \<and> check_stop_loss cfg price entry = Inr True
             then Inr (Some ''Stop Loss Triggered'')
             else if truthy (takeProfitPercent cfg) \<and> truthy entry
                \<and> check_take_profit cfg price entry = Inr True
             then Inr (Some ''Take Profit Triggered'')
             else if enableRangeExitRule cfg \<and> check_range_exit_rule cfg g price
             then Inr (Some ''Range Exit Rule Triggered'')
             else Inr None)"
      using nm check_stop_loss_total [of cfg entry price]
        check_take_profit_total [of cfg entry price]
      by (auto simp: check_exit_conditions_def split: sum.splits bool.splits)
  qed
  show ?thesis using a b by simp
qed

theorem exit_conditions_priority_witness:
  "py_int (get_maxConsecutiveGridPositions scenario_cfg) = Inr 3
   \<and> truthy (stopLossPercent scenario_cfg)
   \<and> check_stop_loss scenario_cfg 900 (Some 1000) = Inr True
   \<and> check_exit_conditions scenario_cfg empty_grid 900 [] 3 (Some 1000)
       = Inr (Some ''Max Consecutive Positions Triggered'')
   \<and> check_exit_conditions scenario_cfg empty_grid 900 [] 2 (Some 1000)
       = Inr (Some ''Stop Loss Triggered'')"
proof -
  have p: "py_int (get_maxConsecutiveGridPositions scenario_cfg) = Inr 3"
    by (simp add: get_maxConsecutiveGridPositions_def scenario_cfg_def int_eval)
  have t: "truthy (stopLossPercent scenario_cfg)" by (simp add: truthy_def scenario_cfg_def)
  have s: "check_stop_loss scenario_cfg 900 (Some 1000) = Inr True"
    by (simp add: check_stop_loss_def scenario_cfg_def dec_eval rnd_eval)
  have l: "(3::int) \<le> 3" by simp
  note e = exit_conditions_priority [OF p l, of empty_grid 900 "[]" "Some 1000" 2]
  have n: "\<not> check_max_consecutive_positions scenario_cfg 2"
    by (simp add: check_max_finite [OF p])
  have "check_exit_conditions scenario_cfg empty_grid 900 [] 2 (Some 1000)
       = Inr (Some ''Stop Loss Triggered'')"
    using e n t s by (simp add: truthy_def)
  then show ?thesis using p t s e by simp
qed

lemma scenario_sl_price: "dec_mul 1000 (dec_sub 1 (dec_quot 5 100)) = 950"
  by (simp add: dec_eval rnd_eval)

lemma scenario_tp_price: "dec_mul 1000 (dec_add 1 (dec_quot 10 100)) = 1100"
  by (simp add: dec_eval rnd_eval)

lemma short_sl_price: "dec_mul 1000 (dec_add 1 (dec_quot 5 100)) = 1050"
  by (simp add: dec_eval rnd_eval)

text \<open>
  C4 (amended).  With the stop-loss % \<open>sl\<close> and the entry price given, the
  stop-loss check trips in long mode exactly when \<open>price \<le> entry\<cdot>(1 - sl%)\<close>
  and in short mode exactly when \<open>price \<ge> entry\<cdot>(1 + sl%)\<close>, where the
  quotient \<open>sl/100\<close>, the sum or difference and the product are each rounded
  to ten significant digits, as the program's decimal context does; these
  are the exact values whenever the exact values have at most ten
  significant digits.  For long mode, stop loss 5 % and entry 1000 it trips
  exactly for the prices \<open>\<le> 950\<close>; with take profit 10 % the take-profit
  check trips exactly for the prices \<open>\<ge> 1100\<close>.
\<close>

theorem stop_loss_thresholds:
  "(stopLossPercent cfg = Some sl \<and> mode cfg = ''long'' \<longrightarrow>
      check_stop_loss cfg price (Some entry)
        = Inr (price \<le> dec_mul entry (dec_sub 1 (dec_quot sl 100))))
   \<and> (stopLossPercent cfg = Some sl \<and> mode cfg = ''short'' \<longrightarrow>
      check_stop_loss cfg price (Some entry)
        = Inr (dec_mul entry (dec_add 1 (dec_quot sl 100)) \<le> price))
   \<and> (stopLossPercent cfg = Some sl \<and> mode cfg = ''long'' \<and> exact (sl / 100)
        \<and> exact (1 - sl / 100) \<and> exact (entry * (1 - sl / 100)) \<longrightarrow>
      check_stop_loss cfg price (Some entry) = Inr (price \<le> entry * (1 - sl / 100)))
   \<and> (stopLossPercent cfg = Some sl \<and> mode cfg = ''short'' \<and> exact (sl / 100)
        \<and> exact (1 + sl / 100) \<and> exact (entry * (1 + sl / 100)) \<longrightarrow>
      check_stop_loss cfg price (Some entry) = Inr (entry * (1 + sl / 100) \<le> price))
   \<and> (stopLossPercent cfg = Some 5 \<and> mode cfg = ''long'' \<longrightarrow>
      check_stop_loss cfg price (Some 1000) = Inr (price \<le> 950))
   \<and> (takeProfitPercent cfg = Some 10 \<and> mode cfg = ''long'' \<longrightarrow>
      check_take_profit cfg price (Some 1000) = Inr (1100 \<le> price))"
proof -
  have l: "stopLossPercent cfg = Some s \<and> mode cfg = ''long'' \<longrightarrow>
      check_stop_loss cfg price (Some e)
        = Inr (price \<le> dec_mul e (dec_sub 1 (dec_quot s 100)))" for s e
    by (simp add: check_stop_loss_def)
  have s: "stopLossPercent cfg = Some s \<and> mode cfg = ''short'' \<longrightarrow>
      check_stop_loss cfg price (Some e)
        = Inr (dec_mul e (dec_add 1 (dec_quot s 100)) \<le> price)" for s e
    by (simp add: check_stop_loss_def)
  have t: "takeProfitPercent cfg = Some 10 \<and> mode cfg = ''long'' \<longrightarrow>
      check_take_profit cfg price (Some 1000) = Inr (1100 \<le> price)"
    by (simp add: check_take_profit_def scenario_tp_price)
  have le: "exact (sl / 100) \<and> exact (1 - sl / 100) \<and> exact (entry * (1 - sl / 100)) \<longrightarrow>
      dec_mul entry (dec_sub 1 (dec_quot sl 100)) = entry * (1 - sl / 100)"
  proof (intro impI, elim conjE)
    assume "exact (sl / 100)" and "exact (1 - sl / 100)" and "exact (entry * (1 - sl / 100))"
    then have a: "rnd (sl / 100) = sl / 100" and b: "rnd (1 - sl / 100) = 1 - sl / 100"
      and c: "rnd (entry * (1 - sl / 100)) = entry * (1 - sl / 100)"
      unfolding exact_def by blast+
    show "dec_mul entry (dec_sub 1 (dec_quot sl 100)) = entry * (1 - sl / 100)"
      unfolding dec_mul_def dec_sub_def dec_quot_def a b c ..
  qed
  have se: "exact (sl / 100) \<and> exact (1 + sl / 100) \<and> exact (entry * (1 + sl / 100)) \<longrightarrow>
      dec_mul entry (dec_add 1 (dec_quot sl 100)) = entry * (1 + sl / 100)"
  proof (intro impI, elim conjE)
    assume "exact (sl / 100)" and "exact (1 + sl / 100)" and "exact (entry * (1 + sl / 100))"
    then have a: "rnd (sl / 100) = sl / 100" and b: "rnd (1 + sl / 100) = 1 + sl / 100"
      and c: "rnd (entry * (1 + sl / 100)) = entry * (1 + sl / 100)"
      unfolding exact_def by blast+
    show "dec_mul entry (dec_add 1 (dec_quot sl 100)) = entry * (1 + sl / 100)"
      unfolding dec_mul_def dec_add_def dec_quot_def a b c ..
  qed
  have l5: "stopLossPercent cfg = Some 5 \<and> mode cfg = ''long'' \<longrightarrow>
      check_stop_loss cfg price (Some 1000) = Inr (price \<le> 950)"
    using l [of 5 1000] by (simp add: scenario_sl_price)
  have lx: "stopLossPercent cfg = Some sl \<and> mode cfg = ''long'' \<and> exact (sl / 100)
        \<and> exact (1 - sl / 100) \<and> exact (entry * (1 - sl / 100)) \<longrightarrow>
      check_stop_loss cfg price (Some entry) = Inr (price \<le> entry * (1 - sl / 100))"
    using l [of sl entry] le by auto
  have sx: "stopLossPercent cfg = Some sl \<and> mode cfg = ''short'' \<and> exact (sl / 100)
        \<and> exact (1 + sl / 100) \<and> exact (entry * (1 + sl / 100)) \<longrightarrow>
      check_stop_loss cfg price (Some entry) = Inr (entry * (1 + sl / 100) \<le> price)"
    using s [of sl entry] se by auto
  show ?thesis using l [of sl entry] s [of sl entry] l5 t lx sx by blast
qed

theorem stop_loss_thresholds_witness:
  "stopLossPercent scenario_cfg = Some 5 \<and> mode scenario_cfg = ''long''
   \<and> takeProfitPercent scenario_cfg = Some 10
   \<and> exact (5 / 100) \<and> exact (1 - 5 / 100) \<and> exact (1000 * (1 - 5 / 100))
   \<and> check_stop_loss scenario_cfg 950 (Some 1000) = Inr True
   \<and> check_stop_loss scenario_cfg (95001 / 100) (Some 1000) = Inr False
   \<and> check_take_profit scenario_cfg 1100 (Some 1000) = Inr True
   \<and> check_take_profit scenario_cfg (109999 / 100) (Some 1000) = Inr False
   \<and> stopLossPercent short_cfg = Some 5 \<and> mode short_cfg = ''short''
   \<and> exact (1 + 5 / 100) \<and> exact (1000 * (1 + 5 / 100))
   \<and> check_stop_loss short_cfg 1050 (Some 1000) = Inr True
   \<and> check_stop_loss short_cfg (104999 / 100) (Some 1000) = Inr False"
proof -
  have a: "stopLossPercent scenario_cfg = Some 5 \<and> mode scenario_cfg = ''long''
      \<and> takeProfitPercent scenario_cfg = Some 10"
    by (simp add: scenario_cfg_def)
  have b: "stopLossPercent short_cfg = Some 5 \<and> mode short_cfg = ''short''"
    by (simp add: short_cfg_def scenario_cfg_def)
  have x: "exact (5 / 100) \<and> exact (1 - 5 / 100) \<and> exact (1000 * (1 - 5 / 100))
      \<and> exact (1 + 5 / 100) \<and> exact (1000 * (1 + 5 / 100))"
    by (simp add: exact_def rnd_eval)
  have 1: "check_stop_loss scenario_cfg 950 (Some 1000) = Inr True"
    using stop_loss_thresholds [of scenario_cfg 5 950 1000] a x by (simp add: scenario_sl_price)
  have 2: "check_stop_loss scenario_cfg (95001 / 100) (Some 1000) = Inr False"
    using stop_loss_thresholds [of scenario_cfg 5 "95001 / 100" 1000] a x by (simp add: scenario_sl_price)
  have 3: "check_take_profit scenario_cfg 1100 (Some 1000) = Inr True"
    using stop_loss_thresholds [of scenario_cfg 5 1100 1000] a by simp
  have 4: "check_take_profit scenario_cfg (109999 / 100) (Some 1000) = Inr False"
    using stop_loss_thresholds [of scenario_cfg 5 "109999 / 100" 1000] a by simp
  have 5: "check_stop_loss short_cfg 1050 (Some 1000) = Inr True"
    using stop_loss_thresholds [of short_cfg 5 1050 1000] b x by (simp add: short_sl_price)
  have 6: "check_stop_loss short_cfg (104999 / 100) (Some 1000) = Inr False"
    using stop_loss_thresholds [of short_cfg 5 "104999 / 100" 1000] b x by (simp add: short_sl_price)
  show ?thesis using a b x 1 2 3 4 5 6 by blast
qed

text \<open>
  C4 as stated fails on the code.  For long mode, stop loss 5 % and the
  entry price 65432.123456 the product \<open>entry\<cdot>0.95 = 62160.5172832\<close> is
  rounded to 62160.51728, so at the price 62160.517283, which is below
  \<open>entry\<cdot>(1 - sl%)\<close>, the check does not trip.
\<close>

theorem stop_loss_rounding_counterexample:
  "mode scenario_cfg = ''long'' \<and> stopLossPercent scenario_cfg = Some 5
   \<and> check_stop_loss scenario_cfg (62160517283 / 1000000) (Some (65432123456 / 1000000))
       = Inr False
   \<and> (62160517283 / 1000000 :: rat) \<le> 65432123456 / 1000000 * (1 - 5 / 100)"
  by (simp add: check_stop_loss_def scenario_cfg_def dec_eval rnd_eval)

text \<open>
  C10.  A limit that \<^verbatim>\<open>int\<close> rejects is treated as no limit: under such a
  \<open>maxConsecutiveGridPositions\<close> the max-consecutive-positions check is false
  and \<open>check_exit_conditions\<close> never returns its reason, and under such a
  \<open>maxMarketPositionReopens\<close> reopening is allowed.  (Every spelling of
  \<^verbatim>\<open>unlimited\<close> is rejected by \<^verbatim>\<open>int\<close> too, and gives the same two answers.)
\<close>

theorem unparsable_limit_is_no_limit:
  "(py_int (get_maxConsecutiveGridPositions cfg) = Inl e \<longrightarrow>
      \<not> check_max_consecutive_positions cfg position_count
      \<and> check_exit_conditions cfg g price ops position_count entry
          \<noteq> Inr (Some ''Max Consecutive Positions Triggered''))
   \<and> (py_int (get_maxMarketPositionReopens cfg) = Inl e' \<longrightarrow>
      can_reopen_market_position cfg st)"
proof -
  have a: "py_int (get_maxConsecutiveGridPositions cfg) = Inl e \<longrightarrow>
      \<not> check_max_consecutive_positions cfg position_count"
    by (simp add: check_max_consecutive_positions_def)
  have b: "\<not> check_max_consecutive_positions cfg position_count \<longrightarrow>
      check_exit_conditions cfg g price ops position_count entry
          \<noteq> Inr (Some ''Max Consecutive Positions Triggered'')"
    by (auto simp: check_exit_conditions_def split: sum.splits bool.splits if_splits)
  have c: "py_int (get_maxMarketPositionReopens cfg) = Inl e' \<longrightarrow>
      can_reopen_market_position cfg st"
    by (simp add: can_reopen_market_position_def)
  show ?thesis using a b c by blast
qed

theorem unparsable_limit_is_no_limit_witness:
  "py_int (get_maxConsecutiveGridPositions unparsable_cfg) = Inl ValueError
   \<and> py_lower (get_maxConsecutiveGridPositions unparsable_cfg) \<noteq> ''unlimited''
   \<and> py_int (get_maxMarketPositionReopens unparsable_cfg) = Inl ValueError
   \<and> py_lower (get_maxMarketPositionReopens unparsable_cfg) \<noteq> ''unlimited''
   \<and> \<not> check_max_consecutive_positions unparsable_cfg 1000
   \<and> check_exit_conditions unparsable_cfg empty_grid 1000 [] 1000 (Some 1000)
        \<noteq> Inr (Some ''Max Consecutive Positions Triggered'')
   \<and> can_reopen_market_position unparsable_cfg (init_manager\<lparr>market_position_reopens := 1000\<rparr>)"
proof -
  have a: "py_int (get_maxConsecutiveGridPositions unparsable_cfg) = Inl ValueError"
    by (simp add: get_maxConsecutiveGridPositions_def unparsable_cfg_def scenario_cfg_def int_eval)
  have b: "py_int (get_maxMarketPositionReopens unparsable_cfg) = Inl ValueError"
    by (simp add: get_maxMarketPositionReopens_def unparsable_cfg_def scenario_cfg_def int_eval)
  have c: "py_lower (get_maxConsecutiveGridPositions unparsable_cfg) \<noteq> ''unlimited''"
    by (simp add: get_maxConsecutiveGridPositions_def unparsable_cfg_def scenario_cfg_def
        py_lower_def)
  have d: "py_lower (get_maxMarketPositionReopens unparsable_cfg) \<noteq> ''unlimited''"
    by (simp add: get_maxMarketPositionReopens_def unparsable_cfg_def scenario_cfg_def
        py_lower_def)
  note t = unparsable_limit_is_no_limit [of unparsable_cfg ValueError 1000 empty_grid 1000 "[]"
      "Some 1000" ValueError "init_manager\<lparr>market_position_reopens := 1000\<rparr>"]
  show ?thesis using a b c d t by blast
qed

section \<open>The reopen queue\<close>

lemma reopen_loop_exchange:
  "reopen_loop cfg es (q, ex, n) = (q', ex', n') \<Longrightarrow>
     ex' = ex\<lparr>orders := orders ex @ map (reopen_order cfg) es\<rparr>"
proof (induction es arbitrary: q ex n)
  case Nil
  then show ?case by simp
next
  case (Cons e es)
  let ?ex1 = "ex\<lparr>orders := orders ex @ [reopen_order cfg e]\<rparr>"
  obtain q1 n1 where "reopen_loop cfg es (q1, ?ex1, n1) = (q', ex', n')"
    using Cons.prems by (simp add: create_order_def split: if_splits)
  then have "ex' = ?ex1\<lparr>orders := orders ?ex1 @ map (reopen_order cfg) es\<rparr>"
    by (rule Cons.IH)
  then show ?case by simp
qed

text \<open>
  Every entry of the copy is still in the queue when its turn comes, so a
  successful placement always finds an entry to remove.
\<close>

lemma reopen_loop_mset:
  assumes "mset es \<subseteq># mset q"
    and "reopen_loop cfg es (q, ex, n) = (q', ex', n')"
  shows "mset q' = mset q - mset es + mset (retained (order_replies ex) (length (orders ex)) es)
         \<and> n' = n + (length es - length (retained (order_replies ex) (length (orders ex)) es))
         \<and> length (retained (order_replies ex) (length (orders ex)) es) \<le> length es"
  using assms
proof (induction es arbitrary: q ex n)
  case Nil
  then show ?case by simp
next
  case (Cons e es)
  let ?ex1 = "ex\<lparr>orders := orders ex @ [reopen_order cfg e]\<rparr>"
  let ?k = "length (orders ex)"
  have r1: "order_replies ?ex1 = order_replies ex" and k1: "length (orders ?ex1) = Suc ?k"
    by simp_all
  have ein: "e \<in># mset q" using Cons.prems(1) by (simp add: insert_subset_eq_iff)
  then have eset: "e \<in> set q" by simp
  have sub: "mset es \<subseteq># mset q - {#e#}"
    using Cons.prems(1) by (simp add: insert_subset_eq_iff)
  show ?case
  proof (cases "order_replies ex ?k")
    case True
    then have run: "reopen_loop cfg es (remove1 e q, ?ex1, n + 1) = (q', ex', n')"
      using Cons.prems(2) eset by (simp add: create_order_def)
    have "mset es \<subseteq># mset (remove1 e q)" using sub by simp
    from Cons.IH [OF this run]
    show ?thesis using True by (simp add: r1 k1 Suc_diff_le)
  next
    case False
    then have run: "reopen_loop cfg es (q, ?ex1, n) = (q', ex', n')"
      using Cons.prems(2) by (simp add: create_order_def)
    have s2: "mset es \<subseteq># mset q" using sub by (meson diff_subset_eq_self subset_mset.order_trans)
    have "count (mset (e # es)) e \<le> count (mset q) e"
      using Cons.prems(1) by (rule mset_subset_eq_count)
    then have "e \<in># mset q - mset es" by (simp add: in_diff_count)
    then have a: "add_mset e (mset q - mset es - {#e#}) = mset q - mset es"
      by (rule insert_DiffM)
    have b: "mset q - mset es - {#e#} = mset q - add_mset e (mset es)" by simp
    have m: "mset q - mset es = add_mset e (mset q - add_mset e (mset es))"
      by (simp only: b [symmetric] a)
    from Cons.IH [OF s2 run]
    show ?thesis using False by (simp add: r1 k1 m)
  qed
qed

lemma reopen_loop_distinct:
  assumes "distinct (pre @ es)"
    and "reopen_loop cfg es (pre @ es, ex, n) = (q', ex', n')"
  shows "q' = pre @ retained (order_replies ex) (length (orders ex)) es"
  using assms
proof (induction es arbitrary: pre ex n)
  case Nil
  then show ?case by simp
next
  case (Cons e es)
  let ?ex1 = "ex\<lparr>orders := orders ex @ [reopen_order cfg e]\<rparr>"
  have r1: "order_replies ?ex1 = order_replies ex" and k1: "length (orders ?ex1) = Suc (length (orders ex))"
    by simp_all
  have ne: "e \<notin> set pre" using Cons.prems(1) by simp
  show ?case
  proof (cases "order_replies ex (length (orders ex))")
    case True
    have rm: "remove1 e (pre @ e # es) = pre @ es" using ne by (simp add: remove1_append)
    have run: "reopen_loop cfg es (pre @ es, ?ex1, n + 1) = (q', ex', n')"
      using Cons.prems(2) True by (simp add: create_order_def rm)
    have "distinct (pre @ es)" using Cons.prems(1) by simp
    from Cons.IH [OF this run] show ?thesis using True by (simp add: r1 k1)
  next
    case False
    have run: "reopen_loop cfg es ((pre @ [e]) @ es, ?ex1, n) = (q', ex', n')"
      using Cons.prems(2) False by (simp add: create_order_def)
    have "distinct ((pre @ [e]) @ es)" using Cons.prems(1) by simp
    from Cons.IH [OF this run] show ?thesis using False by (simp add: r1 k1)
  qed
qed

text \<open>
  C5 (amended).  When position reopening is enabled, for every queue and
  every script of \<^verbatim>\<open>create_order\<close> replies, \<open>process_reopen_queue\<close> sends
  one limit order per entry, in queue order; afterwards the queue holds
  exactly the entries whose placement failed (as a multiset, and in queue
  order when the entries are pairwise distinct), and the result says
  whether an entry was removed.  On an empty queue it does nothing.
\<close>

theorem drain_retains_failed_entries:
  assumes "enablePositionReopen cfg"
    and "process_reopen_queue cfg q ex = (reopened, q', ex')"
  shows "ex' = ex\<lparr>orders := orders ex @ map (reopen_order cfg) q\<rparr>
     \<and> mset q' = mset (retained (order_replies ex) (length (orders ex)) q)
     \<and> (distinct q \<longrightarrow> q' = retained (order_replies ex) (length (orders ex)) q)
     \<and> reopened = (length q' < length q)
     \<and> process_reopen_queue cfg0 [] ex0 = (False, [], ex0)"
proof (cases "q = []")
  case True
  then show ?thesis using assms by (simp add: process_reopen_queue_def)
next
  case False
  obtain n where loop: "reopen_loop cfg q (q, ex, 0) = (q', ex', n)" and r: "reopened = (0 < n)"
    using assms False by (auto simp: process_reopen_queue_def split: prod.splits)
  have 1: "ex' = ex\<lparr>orders := orders ex @ map (reopen_order cfg) q\<rparr>"
    using loop by (rule reopen_loop_exchange)
  note m = reopen_loop_mset [OF subset_mset.order_refl loop]
  have 2: "mset q' = mset (retained (order_replies ex) (length (orders ex)) q)"
    using m by simp
  have 3: "distinct q \<longrightarrow> q' = retained (order_replies ex) (length (orders ex)) q"
    using reopen_loop_distinct [of "[]" q cfg ex 0 q' ex' n] loop by simp
  have "length q' = length (retained (order_replies ex) (length (orders ex)) q)"
    using 2 by (metis size_mset)
  then have 4: "reopened = (length q' < length q)" using m r by auto
  show ?thesis using 1 2 3 4 by (simp add: process_reopen_queue_def)
qed

theorem drain_retains_failed_entries_witness:
  "enablePositionReopen scenario_cfg
   \<and> get_queue_size (fst (snd first_drain)) = 1
   \<and> orders (snd (snd first_drain)) = [reopen_order scenario_cfg scenario_entry]
   \<and> get_queue_size (fst (snd second_drain)) = 0
   \<and> orders (snd (snd second_drain))
       = [reopen_order scenario_cfg scenario_entry, reopen_order scenario_cfg scenario_entry]"
proof -
  have e: "enablePositionReopen scenario_cfg" by (simp add: scenario_cfg_def)
  have d1: "process_reopen_queue scenario_cfg [scenario_entry] fail_then_succeed
      = (fst first_drain, fst (snd first_drain), snd (snd first_drain))"
    by (simp add: first_drain_def)
  note t1 = drain_retains_failed_entries [OF e d1]
  have q1: "fst (snd first_drain) = [scenario_entry]"
    using t1 by (simp add: fail_then_succeed_def scripted_exchange_def)
  have x1: "snd (snd first_drain)
      = fail_then_succeed\<lparr>orders := [reopen_order scenario_cfg scenario_entry]\<rparr>"
    using t1 by (simp add: fail_then_succeed_def scripted_exchange_def)
  have d2: "process_reopen_queue scenario_cfg (fst (snd first_drain)) (snd (snd first_drain))
      = (fst second_drain, fst (snd second_drain), snd (snd second_drain))"
    by (simp add: second_drain_def)
  note t2 = drain_retains_failed_entries [OF e d2]
  have q2: "fst (snd second_drain) = []"
    using t2 unfolding q1 x1 by (simp add: fail_then_succeed_def scripted_exchange_def)
  have x2: "orders (snd (snd second_drain))
       = [reopen_order scenario_cfg scenario_entry, reopen_order scenario_cfg scenario_entry]"
    using t2 unfolding q1 x1 by (simp add: fail_then_succeed_def scripted_exchange_def)
  show ?thesis using e q1 x1 q2 x2 by (simp add: get_queue_size_def)
qed

text \<open>
  C5 as stated fails on the code: with reopening switched off the method
  returns at once, and an entry in the queue gets no order although the
  gateway would accept it.
\<close>

theorem drain_disabled_counterexample:
  "process_reopen_queue no_reopen_cfg [scenario_entry] accepting_exchange
     = (False, [scenario_entry], accepting_exchange)
   \<and> orders accepting_exchange = []
   \<and> order_replies accepting_exchange 0"
  by (simp add: process_reopen_queue_def no_reopen_cfg_def scenario_cfg_def
      accepting_exchange_def scripted_exchange_def)

section \<open>The signal-driven position\<close>

lemma close_market_position_frame:
  "close_market_position cfg r st ex = (res, st', ex') \<Longrightarrow>
     market_position_reopens st' = market_position_reopens st
     \<and> last_analysis_result st' = last_analysis_result st
     \<and> orders ex' = orders ex \<and> order_replies ex' = order_replies ex"
  by (auto simp: close_market_position_def get_position_information_def
      close_position_market_def Let_def split: if_splits option.splits prod.splits)

lemma open_market_position_frame:
  "open_market_position cfg sd p st ex = (res, st', ex') \<Longrightarrow>
     market_position_reopens st' = market_position_reopens st
     \<and> last_analysis_result st' = last_analysis_result st"
  by (auto simp: open_market_position_def create_order_def Let_def
      split: if_splits prod.splits)

lemma determine_action_reopens:
  "determine_action cfg a st = (act, st') \<Longrightarrow>
     market_position_reopens st' = market_position_reopens st \<or> market_position_reopens st' = 0"
  by (auto simp: determine_action_def Let_def split: if_splits option.splits)

lemma run_detector_frame:
  "run_volatility_detector_analysis cfg outcomes now st = (res, st') \<Longrightarrow>
     market_position_reopens st' = market_position_reopens st
     \<and> last_analysis_result st' = last_analysis_result st
     \<and> (res = detector_attempts outcomes 1 (nat (volatilityDetectorMaxRetries cfg)))"
  by (auto simp: run_volatility_detector_analysis_def split: option.splits)

lemma process_analysis_reopens:
  "process_analysis cfg p t outcomes st ex = (r, st', ex') \<Longrightarrow>
     market_position_reopens st' = market_position_reopens st \<or> market_position_reopens st' = 0"
  by (auto simp: process_analysis_def
      split: if_splits option.splits prod.splits
      dest!: close_market_position_frame open_market_position_frame
        determine_action_reopens run_detector_frame)

text \<open>What \<open>handle_market_position_tp_sl\<close> tests before it reopens.\<close>

lemma handle_tp_sl_cases:
  assumes "handle_market_position_tp_sl cfg trig p st ex = (r, st', ex')"
  shows "(r \<longrightarrow> can_reopen_market_position cfg st
              \<and> (\<forall>previous. last_analysis_result st = Some previous \<and> previous \<noteq> []
                    \<longrightarrow> dict_get previous ''momentum'' \<noteq> Some ''NEUTRAL'')
              \<and> market_position_reopens st' = market_position_reopens st + 1)
       \<and> (\<not> r \<longrightarrow> market_position_reopens st' = market_position_reopens st
              \<and> orders ex' = orders ex)"
  using assms
  by (auto simp: handle_market_position_tp_sl_def get_position_information_def Let_def
      split: if_splits option.splits prod.splits
      dest!: close_market_position_frame open_market_position_frame)

lemma close_market_position_closes:
  "close_market_position cfg r st ex = ((True, sd), st', ex') \<Longrightarrow>
     truthy_str (market_position st) \<Longrightarrow> market_position st' = None"
  by (auto simp: close_market_position_def get_position_information_def
      close_position_market_def Let_def split: if_splits option.splits prod.splits)

text \<open>
  C7.  With a finite limit \<open>N\<close> that the reopen counter has reached,
  \<open>handle_market_position_tp_sl\<close> does what \<open>close_market_position\<close> does and
  nothing more: it returns \<^verbatim>\<open>False\<close>, sends no order, leaves the counter,
  and the position is gone when the close goes through.  It reopens only
  with the counter below \<open>N\<close> and a last momentum other than \<^verbatim>\<open>NEUTRAL\<close>, and
  a reopen adds one to the counter.
\<close>

theorem reopen_budget:
  assumes "py_int (get_maxMarketPositionReopens cfg) = Inr limit"
    and "handle_market_position_tp_sl cfg trig price st ex = (reopened, st', ex')"
  shows "(limit \<le> market_position_reopens st \<longrightarrow>
            \<not> reopened \<and> market_position_reopens st' = market_position_reopens st
            \<and> orders ex' = orders ex
            \<and> (truthy_str (market_position st) \<longrightarrow>
                 (st', ex') = snd (close_market_position cfg False st ex)
                 \<and> (fst (fst (close_market_position cfg False st ex)) \<longrightarrow>
                      market_position st' = None)))
       \<and> (reopened \<longrightarrow>
            market_position_reopens st < limit
            \<and> (\<forall>previous. last_analysis_result st = Some previous \<and> previous \<noteq> []
                  \<longrightarrow> dict_get previous ''momentum'' \<noteq> Some ''NEUTRAL'')
            \<and> market_position_reopens st' = market_position_reopens st + 1)
       \<and> (\<not> reopened \<longrightarrow>
            market_position_reopens st' = market_position_reopens st \<and> orders ex' = orders ex)"
proof -
  note c = handle_tp_sl_cases [OF assms(2)]
  note f = can_reopen_finite [OF assms(1), of st]
  have a: "limit \<le> market_position_reopens st \<longrightarrow> \<not> reopened" using c f by auto
  have b: "limit \<le> market_position_reopens st \<and> truthy_str (market_position st) \<longrightarrow>
      (st', ex') = snd (close_market_position cfg False st ex)"
    using assms(2) f by (auto simp: handle_market_position_tp_sl_def split: prod.splits)
  have d: "truthy_str (market_position st)
      \<and> (st', ex') = snd (close_market_position cfg False st ex)
      \<and> fst (fst (close_market_position cfg False st ex)) \<longrightarrow> market_position st' = None"
  proof (intro impI, elim conjE)
    assume t: "truthy_str (market_position st)"
      and e: "(st', ex') = snd (close_market_position cfg False st ex)"
      and s: "fst (fst (close_market_position cfg False st ex))"
    obtain sd where "close_market_position cfg False st ex = ((True, sd), st', ex')"
      using e s by (metis (full_types) prod.collapse)
    then show "market_position st' = None" using t by (rule close_market_position_closes)
  qed
  show ?thesis using a b c d f by auto
qed

lemmas manager_eval =
  handle_market_position_tp_sl_def can_reopen_market_position_def
  get_maxMarketPositionReopens_def close_market_position_def open_market_position_def
  get_position_information_def close_position_market_def create_order_def
  calculate_market_position_targets_def truthy_str_def dict_get_def py_lower_def
  lower_char_def int_eval Let_def

lemma scenario_reopen_limit: "py_int (get_maxMarketPositionReopens scenario_cfg) = Inr 2"
  by (simp add: get_maxMarketPositionReopens_def scenario_cfg_def int_eval)

lemma budget_spent_value:
  "budget_spent =
     (False,
      (long_manager 2)\<lparr>market_position := None, market_position_entry_price := None,
                        market_position_targets := None\<rparr>,
      live_exchange\<lparr>position_calls := 1,
                     closes := [\<lparr>close_symbol = ''BTCUSDT'', close_quantity = 1,
                                 close_side = ''SELL'', close_position_side = ''LONG''\<rparr>]\<rparr>)"
  by (simp add: budget_spent_def long_manager_def live_exchange_def scenario_cfg_def
      up_overbought_def manager_eval)

lemma budget_left_value:
  "budget_left =
     (True,
      (long_manager 2)\<lparr>market_position_entry_price := Some 1100,
                        market_position_targets :=
                          Some (calculate_market_position_targets scenario_cfg 1100 ''BUY'')\<rparr>,
      live_exchange\<lparr>position_calls := 2,
                     closes := [\<lparr>close_symbol = ''BTCUSDT'', close_quantity = 1,
                                 close_side = ''SELL'', close_position_side = ''LONG''\<rparr>],
                     orders := [\<lparr>order_symbol = ''BTCUSDT'', order_type = ''MARKET'',
                                 order_quantity = 1 / 110, order_side = ''BUY'',
                                 order_price = None, order_position_side = ''LONG''\<rparr>]\<rparr>)"
  by (simp add: budget_left_def long_manager_def live_exchange_def scenario_cfg_def
      up_overbought_def manager_eval)

theorem reopen_budget_witness:
  "py_int (get_maxMarketPositionReopens scenario_cfg) = Inr 2
   \<and> market_position_reopens (long_manager 2) = 2
   \<and> truthy_str (market_position (long_manager 2))
   \<and> fst budget_spent = False
   \<and> market_position (fst (snd budget_spent)) = None
   \<and> market_position_reopens (fst (snd budget_spent)) = 2
   \<and> orders (snd (snd budget_spent)) = []
   \<and> length (closes (snd (snd budget_spent))) = 1
   \<and> market_position_reopens (long_manager 1) = 1
   \<and> fst budget_left = True
   \<and> market_position (fst (snd budget_left)) = Some ''BUY''
   \<and> market_position_reopens (fst (snd budget_left)) = 2
   \<and> length (orders (snd (snd budget_left))) = 1"
proof -
  have s: "handle_market_position_tp_sl scenario_cfg ''TAKE_PROFIT'' 1100 (long_manager 2)
      live_exchange = (fst budget_spent, fst (snd budget_spent), snd (snd budget_spent))"
    by (simp add: budget_spent_def)
  have l: "handle_market_position_tp_sl scenario_cfg ''TAKE_PROFIT'' 1100 (long_manager 1)
      live_exchange = (fst budget_left, fst (snd budget_left), snd (snd budget_left))"
    by (simp add: budget_left_def)
  note ts = reopen_budget [OF scenario_reopen_limit s]
  note tl = reopen_budget [OF scenario_reopen_limit l]
  have m2: "market_position_reopens (long_manager 2) = 2"
    and m1: "market_position_reopens (long_manager 1) = 1"
    and t2: "truthy_str (market_position (long_manager 2))"
    by (simp_all add: long_manager_def truthy_str_def)
  have a: "fst budget_spent = False \<and> market_position_reopens (fst (snd budget_spent)) = 2
      \<and> orders (snd (snd budget_spent)) = orders live_exchange"
    using ts m2 by simp
  have b: "market_position (fst (snd budget_spent)) = None
      \<and> length (closes (snd (snd budget_spent))) = 1"
    by (simp add: budget_spent_value)
  have c: "fst budget_left = True" by (simp add: budget_left_value)
  then have d: "market_position_reopens (fst (snd budget_left)) = 2" using tl m1 by simp
  have e: "market_position (fst (snd budget_left)) = Some ''BUY''
      \<and> length (orders (snd (snd budget_left))) = 1"
    by (simp add: budget_left_value long_manager_def)
  have o: "orders live_exchange = []" by (simp add: live_exchange_def)
  show ?thesis using scenario_reopen_limit m1 m2 t2 a b c d e o by simp
qed

text \<open>
  One call changes the counter in one of three ways: not at all, back to
  zero, or up by one after \<open>can_reopen_market_position\<close> has said yes.
\<close>

lemma manager_step_reopens:
  "market_position_reopens (fst (manager_step cfg call (st, ex))) = market_position_reopens st
   \<or> market_position_reopens (fst (manager_step cfg call (st, ex))) = 0
   \<or> (can_reopen_market_position cfg st
       \<and> market_position_reopens (fst (manager_step cfg call (st, ex)))
           = market_position_reopens st + 1)"
proof (cases call)
  case (ProcessAnalysis p t outcomes)
  obtain r st' ex' where "process_analysis cfg p t outcomes st ex = (r, st', ex')"
    using prod_cases3 by blast
  then show ?thesis using ProcessAnalysis process_analysis_reopens by fastforce
next
  case (HandleMarketPositionTpSl trig p)
  obtain r st' ex' where h: "handle_market_position_tp_sl cfg trig p st ex = (r, st', ex')"
    using prod_cases3 by blast
  show ?thesis using HandleMarketPositionTpSl handle_tp_sl_cases [OF h] h by (cases r) auto
next
  case (DetermineAction a)
  obtain act st' where "determine_action cfg a st = (act, st')" by fastforce
  then show ?thesis using DetermineAction determine_action_reopens by fastforce
next
  case (RunVolatilityDetectorAnalysis outcomes now)
  obtain res st' where "run_volatility_detector_analysis cfg outcomes now st = (res, st')"
    by fastforce
  then show ?thesis using RunVolatilityDetectorAnalysis run_detector_frame by fastforce
next
  case (OpenMarketPosition sd p)
  obtain r st' ex' where "open_market_position cfg sd p st ex = (r, st', ex')"
    using prod_cases3 by blast
  then show ?thesis using OpenMarketPosition open_market_position_frame by fastforce
next
  case (CloseMarketPosition r)
  obtain res st' ex' where "close_market_position cfg r st ex = (res, st', ex')"
    using prod_cases3 by blast
  then show ?thesis using CloseMarketPosition close_market_position_frame by fastforce
qed

lemma manager_step_bounded:
  assumes "py_int (get_maxMarketPositionReopens cfg) = Inr limit" and "0 \<le> limit"
    and "market_position_reopens st \<le> limit"
  shows "market_position_reopens (fst (manager_step cfg call (st, ex))) \<le> limit"
  using manager_step_reopens [of cfg call st ex] can_reopen_finite [OF assms(1), of st] assms(2,3)
  by auto

lemma manager_run_bounded:
  assumes "py_int (get_maxMarketPositionReopens cfg) = Inr limit" and "0 \<le> limit"
  shows "market_position_reopens (fst s) \<le> limit \<Longrightarrow>
         market_position_reopens (fst (fold (manager_step cfg) calls s)) \<le> limit"
proof (induction calls arbitrary: s)
  case Nil
  then show ?case by simp
next
  case (Cons call calls)
  obtain st ex where s: "s = (st, ex)" by fastforce
  have "market_position_reopens (fst (manager_step cfg call s)) \<le> limit"
    using manager_step_bounded [OF assms] Cons.prems unfolding s by simp
  then show ?case using Cons.IH by simp
qed

lemma determine_action_signal_change:
  "truthy_str (last_signal st) \<Longrightarrow>
   last_signal st
     \<noteq> Some (py_str (dict_get a ''trend'') @ ''_'' @ py_str (dict_get a ''momentum'')) \<Longrightarrow>
   market_position_reopens (snd (determine_action cfg a st)) = 0"
  by (simp add: determine_action_def Let_def split: option.splits)

lemma process_analysis_action_resets:
  assumes "enableMarketPositionLogic cfg" and "should_run_analysis cfg st now"
    and "detector_attempts outcomes 1 (nat (volatilityDetectorMaxRetries cfg)) = Some a"
    and "a \<noteq> []"
    and "fst (determine_action cfg a (st\<lparr>last_analysis_time := Some now\<rparr>)) \<noteq> None"
  shows "market_position_reopens (fst (snd (process_analysis cfg p now outcomes st ex))) = 0"
proof -
  let ?st0 = "st\<lparr>last_analysis_time := Some now\<rparr>"
  have r: "run_volatility_detector_analysis cfg outcomes now st = (Some a, ?st0)"
    using assms(3) by (simp add: run_volatility_detector_analysis_def)
  obtain act st2 where d: "determine_action cfg a ?st0 = (Some act, st2)"
    using assms(5) by (metis option.exhaust prod.collapse)
  have k: "act = ''OPEN_LONG'' \<or> act = ''OPEN_SHORT'' \<or> act = ''CLOSE''"
    using d by (auto simp: determine_action_def Let_def split: if_splits option.splits)
  obtain c1 st3 ex3 where c: "close_market_position cfg False st2 ex = (c1, st3, ex3)"
    using prod_cases3 by blast
  obtain o1 st4 ex4 where o: "open_market_position cfg ''BUY'' p
      (st3\<lparr>market_position_reopens := 0\<rparr>) ex3 = (o1, st4, ex4)"
    using prod_cases3 by blast
  obtain o2 st5 ex5 where o': "open_market_position cfg ''SELL'' p
      (st3\<lparr>market_position_reopens := 0\<rparr>) ex3 = (o2, st5, ex5)"
    using prod_cases3 by blast
  have "market_position_reopens st4 = 0" using open_market_position_frame [OF o] by simp
  moreover have "market_position_reopens st5 = 0" using open_market_position_frame [OF o'] by simp
  ultimately show ?thesis
    using assms(1,2,4) r d k c o o' by (auto simp: process_analysis_def)
qed

text \<open>
  C9 (amended).  When the configured \<open>maxMarketPositionReopens\<close> is an
  integer \<open>N \<ge> 0\<close>, the reopen counter never exceeds \<open>N\<close>: that holds of the
  initial state, every method of the manager preserves it, so it holds after
  every sequence of calls; a call that raises the counter started with the
  counter below \<open>N\<close>; and a change of signal and every action that an
  analysis leads to (open long, open short, close) put it back to zero.
\<close>

theorem reopens_never_exceed_limit:
  assumes "py_int (get_maxMarketPositionReopens cfg) = Inr limit" and "0 \<le> limit"
  shows "market_position_reopens init_manager \<le> limit
     \<and> (market_position_reopens st \<le> limit \<longrightarrow>
          market_position_reopens (fst (manager_step cfg call (st, ex))) \<le> limit)
     \<and> market_position_reopens (fst (fold (manager_step cfg) calls (init_manager, ex0))) \<le> limit
     \<and> (market_position_reopens st
           < market_position_reopens (fst (manager_step cfg call (st, ex))) \<longrightarrow>
          market_position_reopens st < limit)
     \<and> (truthy_str (last_signal st)
          \<and> last_signal st
               \<noteq> Some (py_str (dict_get a ''trend'') @ ''_'' @ py_str (dict_get a ''momentum''))
          \<longrightarrow> market_position_reopens (snd (determine_action cfg a st)) = 0)
     \<and> (enableMarketPositionLogic cfg \<and> should_run_analysis cfg st now
          \<and> detector_attempts outcomes 1 (nat (volatilityDetectorMaxRetries cfg)) = Some a
          \<and> a \<noteq> []
          \<and> fst (determine_action cfg a (st\<lparr>last_analysis_time := Some now\<rparr>)) \<noteq> None
          \<longrightarrow> market_position_reopens
                (fst (snd (process_analysis cfg p now outcomes st ex))) = 0)"
proof -
  have i: "market_position_reopens init_manager \<le> limit"
    using assms(2) by (simp add: init_manager_def)
  have s: "market_position_reopens st \<le> limit \<longrightarrow>
          market_position_reopens (fst (manager_step cfg call (st, ex))) \<le> limit"
    using manager_step_bounded [OF assms] by blast
  have f: "market_position_reopens (fst (fold (manager_step cfg) calls (init_manager, ex0)))
      \<le> limit"
    using manager_run_bounded [OF assms, of "(init_manager, ex0)" calls] i by simp
  have u: "market_position_reopens st
           < market_position_reopens (fst (manager_step cfg call (st, ex))) \<longrightarrow>
          market_position_reopens st < limit"
    using manager_step_reopens [of cfg call st ex] can_reopen_finite [OF assms(1), of st]
      assms(2) by auto
  show ?thesis
    using i s f u determine_action_signal_change [of st a cfg]
      process_analysis_action_resets [of cfg st now outcomes a p ex]
    by blast
qed

lemma three_triggers_value:
  "market_position_reopens (fst (fold (manager_step scenario_cfg) three_triggers
      (init_manager, live_exchange))) = 2"
  by (simp add: three_triggers_def init_manager_def live_exchange_def scenario_cfg_def
      up_overbought_def process_analysis_def should_run_analysis_def
      run_volatility_detector_analysis_def determine_action_def get_neutralMomentumAction_def
      py_str_def eval_nat_numeral manager_eval)

theorem reopens_never_exceed_limit_witness:
  "py_int (get_maxMarketPositionReopens scenario_cfg) = Inr 2 \<and> (0::int) \<le> 2
   \<and> market_position_reopens init_manager \<le> 2
   \<and> market_position_reopens (long_manager 2) \<le> 2
   \<and> market_position_reopens
        (fst (manager_step scenario_cfg (HandleMarketPositionTpSl ''TAKE_PROFIT'' 1100)
               (long_manager 2, live_exchange))) \<le> 2
   \<and> market_position_reopens
        (fst (fold (manager_step scenario_cfg) three_triggers (init_manager, live_exchange))) = 2
   \<and> truthy_str (last_signal (long_manager 2))
   \<and> last_signal (long_manager 2) \<noteq> Some ''DOWNTREND_OVERSOLD''
   \<and> market_position_reopens
        (snd (determine_action scenario_cfg down_oversold (long_manager 2))) = 0"
proof -
  have z: "(0::int) \<le> 2" by simp
  note t = reopens_never_exceed_limit [OF scenario_reopen_limit z,
      of "long_manager 2" "HandleMarketPositionTpSl ''TAKE_PROFIT'' 1100" live_exchange
        three_triggers live_exchange down_oversold]
  have m: "market_position_reopens (long_manager 2) \<le> 2" by (simp add: long_manager_def)
  have g: "py_str (dict_get down_oversold ''trend'') @ ''_''
      @ py_str (dict_get down_oversold ''momentum'') = ''DOWNTREND_OVERSOLD''"
    by (simp add: dict_get_def py_str_def down_oversold_def)
  have l: "truthy_str (last_signal (long_manager 2))
      \<and> last_signal (long_manager 2) \<noteq> Some ''DOWNTREND_OVERSOLD''"
    by (simp add: long_manager_def truthy_str_def)
  have d: "market_position_reopens
        (snd (determine_action scenario_cfg down_oversold (long_manager 2))) = 0"
    using t l unfolding g by blast
  show ?thesis using scenario_reopen_limit t m three_triggers_value l d by simp
qed

text \<open>
  C9 as stated fails for a negative limit: \<^verbatim>\<open>int("-1")\<close> is a finite integer,
  and the counter of a new manager, zero, exceeds it.
\<close>

theorem negative_limit_counterexample:
  "py_int (get_maxMarketPositionReopens negative_limit_cfg) = Inr (- 1)
   \<and> market_position_reopens init_manager = 0
   \<and> \<not> market_position_reopens init_manager \<le> - 1"
  by (simp add: get_maxMarketPositionReopens_def negative_limit_cfg_def scenario_cfg_def
      init_manager_def int_eval)

lemma determine_action_stores:
  "a \<noteq> [] \<Longrightarrow>
     \<exists>previous. last_analysis_result (snd (determine_action cfg a st)) = Some previous
       \<and> previous \<noteq> []
       \<and> dict_get previous ''trend'' = dict_get a ''trend''
       \<and> dict_get previous ''momentum'' = dict_get a ''momentum''"
  by (auto simp: determine_action_def Let_def split: option.splits)

lemma determine_action_same:
  assumes "last_analysis_result st = Some previous" and "previous \<noteq> []"
    and "dict_get a ''trend'' = dict_get previous ''trend''"
    and "dict_get a ''momentum'' = dict_get previous ''momentum''"
  shows "fst (determine_action cfg a st) = None"
  using assms by (simp add: determine_action_def Let_def)

lemma determine_action_no_signal:
  "dict_get a ''trend'' = None \<Longrightarrow> dict_get a ''momentum'' = None \<Longrightarrow>
     fst (determine_action cfg a st) = None"
  by (simp add: determine_action_def Let_def)

lemma determine_action_twice:
  assumes "dict_get a2 ''trend'' = dict_get a1 ''trend''"
    and "dict_get a2 ''momentum'' = dict_get a1 ''momentum''"
  shows "fst (determine_action cfg a2 (snd (determine_action cfg a1 st))) = None"
proof (cases "a1 = []")
  case True
  then have "dict_get a2 ''trend'' = None" and "dict_get a2 ''momentum'' = None"
    using assms by (simp_all add: dict_get_def)
  then show ?thesis by (rule determine_action_no_signal)
next
  case False
  then obtain previous where
    "last_analysis_result (snd (determine_action cfg a1 st)) = Some previous"
    "previous \<noteq> []" "dict_get previous ''trend'' = dict_get a1 ''trend''"
    "dict_get previous ''momentum'' = dict_get a1 ''momentum''"
    using determine_action_stores by blast
  then show ?thesis
    using assms by (intro determine_action_same [where previous = previous]) simp_all
qed

lemma process_analysis_ran:
  assumes "process_analysis cfg p t outcomes st ex = (True, st1, ex1)"
  shows "\<exists>a previous. detector_attempts outcomes 1 (nat (volatilityDetectorMaxRetries cfg)) = Some a
      \<and> last_analysis_result st1 = Some previous \<and> previous \<noteq> []
      \<and> dict_get previous ''trend'' = dict_get a ''trend''
      \<and> dict_get previous ''momentum'' = dict_get a ''momentum''"
proof -
  obtain a st0 where d: "run_volatility_detector_analysis cfg outcomes t st = (Some a, st0)"
    and ne: "a \<noteq> []"
    using assms by (auto simp: process_analysis_def split: if_splits option.splits prod.splits)
  have da: "detector_attempts outcomes 1 (nat (volatilityDetectorMaxRetries cfg)) = Some a"
    using run_detector_frame [OF d] by simp
  obtain act st2 where det: "determine_action cfg a st0 = (act, st2)" by fastforce
  have "last_analysis_result st1 = last_analysis_result st2"
    using assms d ne det
    by (auto simp: process_analysis_def
        split: if_splits option.splits prod.splits
        dest!: close_market_position_frame open_market_position_frame)
  moreover obtain previous where "last_analysis_result st2 = Some previous" "previous \<noteq> []"
    "dict_get previous ''trend'' = dict_get a ''trend''"
    "dict_get previous ''momentum'' = dict_get a ''momentum''"
    using determine_action_stores [OF ne, of cfg st0] det by auto
  ultimately show ?thesis using da by auto
qed

lemma process_analysis_same:
  assumes "last_analysis_result st = Some previous" and "previous \<noteq> []"
    and "detector_attempts outcomes 1 (nat (volatilityDetectorMaxRetries cfg)) = Some a"
    and "dict_get a ''trend'' = dict_get previous ''trend''"
    and "dict_get a ''momentum'' = dict_get previous ''momentum''"
  shows "snd (snd (process_analysis cfg p t outcomes st ex)) = ex
     \<and> market_position (fst (snd (process_analysis cfg p t outcomes st ex))) = market_position st"
proof -
  let ?st0 = "st\<lparr>last_analysis_time := Some t\<rparr>"
  have r: "run_volatility_detector_analysis cfg outcomes t st = (Some a, ?st0)"
    using assms(3) by (simp add: run_volatility_detector_analysis_def)
  have "fst (determine_action cfg a ?st0) = None"
    using assms by (intro determine_action_same [where previous = previous]) simp_all
  then obtain st2 where d: "determine_action cfg a ?st0 = (None, st2)"
    by (metis prod.collapse)
  have m: "market_position st2 = market_position st"
    using d by (auto simp: determine_action_def Let_def split: if_splits option.splits)
  show ?thesis using r d m by (simp add: process_analysis_def)
qed

text \<open>
  C6.  Two analysis results in a row with the same trend and the same
  momentum: the second call of \<open>determine_action\<close> returns \<^verbatim>\<open>None\<close>, from
  every state of the manager.  So when an analysis has been processed, the
  next \<open>process_analysis\<close> that gets the same signal sends nothing to the
  gateway and leaves the position as it is.
\<close>

theorem identical_signals_debounced:
  assumes "dict_get a2 ''trend'' = dict_get a1 ''trend''"
    and "dict_get a2 ''momentum'' = dict_get a1 ''momentum''"
  shows "fst (determine_action cfg a2 (snd (determine_action cfg a1 st))) = None
    \<and> (process_analysis cfg p1 t1 o1 st ex = (True, st1, ex1)
        \<and> detector_attempts o1 1 (nat (volatilityDetectorMaxRetries cfg)) = Some a1
        \<and> detector_attempts o2 1 (nat (volatilityDetectorMaxRetries cfg)) = Some a2 \<longrightarrow>
       snd (snd (process_analysis cfg p2 t2 o2 st1 ex2)) = ex2
       \<and> market_position (fst (snd (process_analysis cfg p2 t2 o2 st1 ex2)))
           = market_position st1)"
proof -
  have a: "fst (determine_action cfg a2 (snd (determine_action cfg a1 st))) = None"
    using assms by (rule determine_action_twice)
  have b: "process_analysis cfg p1 t1 o1 st ex = (True, st1, ex1)
        \<and> detector_attempts o1 1 (nat (volatilityDetectorMaxRetries cfg)) = Some a1
        \<and> detector_attempts o2 1 (nat (volatilityDetectorMaxRetries cfg)) = Some a2 \<longrightarrow>
       snd (snd (process_analysis cfg p2 t2 o2 st1 ex2)) = ex2
       \<and> market_position (fst (snd (process_analysis cfg p2 t2 o2 st1 ex2)))
           = market_position st1"
  proof (intro impI, elim conjE)
    assume r: "process_analysis cfg p1 t1 o1 st ex = (True, st1, ex1)"
      and d1: "detector_attempts o1 1 (nat (volatilityDetectorMaxRetries cfg)) = Some a1"
      and d2: "detector_attempts o2 1 (nat (volatilityDetectorMaxRetries cfg)) = Some a2"
    obtain previous where "last_analysis_result st1 = Some previous" "previous \<noteq> []"
      "dict_get previous ''trend'' = dict_get a1 ''trend''"
      "dict_get previous ''momentum'' = dict_get a1 ''momentum''"
      using process_analysis_ran [OF r] d1 by auto
    then show "snd (snd (process_analysis cfg p2 t2 o2 st1 ex2)) = ex2
       \<and> market_position (fst (snd (process_analysis cfg p2 t2 o2 st1 ex2)))
           = market_position st1"
      using assms d2
      by (intro process_analysis_same [where previous = previous and a = a2]) simp_all
  qed
  show ?thesis using a b by blast
qed

lemma up_overbought_detected:
  "detector_attempts (\<lambda>n. Some up_overbought) 1 (nat (volatilityDetectorMaxRetries scenario_cfg))
     = Some up_overbought"
  by (simp add: scenario_cfg_def up_overbought_def eval_nat_numeral)

lemma first_analysis_value:
  "first_analysis =
     (True,
      \<lparr>last_analysis_time = Some 0, last_analysis_result = Some up_overbought,
       market_position = Some ''BUY'', market_position_entry_price = Some 1000,
       market_position_targets = Some (calculate_market_position_targets scenario_cfg 1000 ''BUY''),
       market_position_reopens = 0, last_signal = Some ''UPTREND_OVERBOUGHT''\<rparr>,
      live_exchange\<lparr>orders := [\<lparr>order_symbol = ''BTCUSDT'', order_type = ''MARKET'',
                                 order_quantity = 1 / 100, order_side = ''BUY'',
                                 order_price = None, order_position_side = ''LONG''\<rparr>]\<rparr>)"
  by (simp add: first_analysis_def init_manager_def live_exchange_def scenario_cfg_def
      up_overbought_def process_analysis_def should_run_analysis_def
      run_volatility_detector_analysis_def determine_action_def get_neutralMomentumAction_def
      py_str_def eval_nat_numeral manager_eval)

theorem identical_signals_debounced_witness:
  "dict_get up_overbought ''trend'' = Some ''UPTREND''
   \<and> dict_get up_overbought ''momentum'' = Some ''OVERBOUGHT''
   \<and> fst (determine_action scenario_cfg up_overbought init_manager) = Some ''OPEN_LONG''
   \<and> fst (determine_action scenario_cfg up_overbought
             (snd (determine_action scenario_cfg up_overbought init_manager))) = None
   \<and> fst first_analysis = True
   \<and> length (orders (snd (snd first_analysis))) = 1
   \<and> market_position (fst (snd first_analysis)) = Some ''BUY''
   \<and> snd (snd second_analysis) = snd (snd first_analysis)
   \<and> market_position (fst (snd second_analysis)) = Some ''BUY''"
proof -
  have g: "dict_get up_overbought ''trend'' = Some ''UPTREND''
      \<and> dict_get up_overbought ''momentum'' = Some ''OVERBOUGHT''"
    by (simp add: dict_get_def up_overbought_def)
  have o: "fst (determine_action scenario_cfg up_overbought init_manager) = Some ''OPEN_LONG''"
    using g by (simp add: determine_action_def init_manager_def truthy_str_def Let_def)
  have f: "fst first_analysis = True \<and> length (orders (snd (snd first_analysis))) = 1
      \<and> market_position (fst (snd first_analysis)) = Some ''BUY''"
    by (simp add: first_analysis_value)
  have r: "process_analysis scenario_cfg 1000 0 (\<lambda>n. Some up_overbought) init_manager
      live_exchange = (True, fst (snd first_analysis), snd (snd first_analysis))"
    by (subst first_analysis_def [symmetric]) (metis f prod.collapse)
  note t = identical_signals_debounced [of up_overbought up_overbought scenario_cfg init_manager
      1000 0 "\<lambda>n. Some up_overbought" live_exchange "fst (snd first_analysis)"
      "snd (snd first_analysis)" "\<lambda>n. Some up_overbought" 1000 600 "snd (snd first_analysis)",
      OF refl refl]
  have s: "snd (snd second_analysis) = snd (snd first_analysis)
      \<and> market_position (fst (snd second_analysis)) = market_position (fst (snd first_analysis))"
    using t r up_overbought_detected by (simp add: second_analysis_def)
  show ?thesis using g o f s t by simp
qed

section \<open>The tick\<close>

text \<open>
  C8.  The price is asked for only when no shutdown is pending.  When the
  gateway then has no price (\<^verbatim>\<open>None\<close>, or zero, which \<^verbatim>\<open>if not price_str\<close>
  takes for none), \<open>run\<close> returns with the bot as it was: the grid levels,
  the grid-active flag, the position counter, the position targets, the last
  position amount, the reopen queue and the state of the market-position
  manager are those of before the tick, and the gateway has received nothing
  but the request for the price.
\<close>

theorem run_without_price_changes_nothing:
  assumes "\<not> close_now" and "\<not> truthy (price_replies ex (price_calls ex))"
  shows "run cfg close_now now outcomes b ex
           = Some (Returned b (ex\<lparr>price_calls := price_calls ex + 1\<rparr>))
     \<and> (case run cfg close_now now outcomes b ex of
          Some (Returned b' ex') \<Rightarrow>
            grid_levels (grid_state b') = grid_levels (grid_state b)
            \<and> is_grid_active b' = is_grid_active b
            \<and> position_counter b' = position_counter b
            \<and> position_targets b' = position_targets b
            \<and> last_position_amt b' = last_position_amt b
            \<and> positions_to_reopen b' = positions_to_reopen b
            \<and> market_position_manager b' = market_position_manager b
            \<and> orders ex' = orders ex \<and> closes ex' = closes ex
        | _ \<Rightarrow> False)
     \<and> (case run cfg True now outcomes b ex of
          Some (Exited b' ex') \<Rightarrow> price_calls ex' = price_calls ex
        | _ \<Rightarrow> False)"
proof -
  have r: "run cfg close_now now outcomes b ex
      = Some (Returned b (ex\<lparr>price_calls := price_calls ex + 1\<rparr>))"
    using assms by (simp add: run_def get_market_price_def)
  have s: "case run cfg True now outcomes b ex of
          Some (Exited b' ex') \<Rightarrow> price_calls ex' = price_calls ex
        | _ \<Rightarrow> False"
    by (simp add: run_def cancel_all_open_orders_def get_position_information_def
        close_all_positions_def Let_def)
  show ?thesis using r s by simp
qed

theorem run_without_price_changes_nothing_witness:
  "\<not> truthy (price_replies no_price_exchange (price_calls no_price_exchange))
   \<and> run scenario_cfg False 0 (\<lambda>n. Some up_overbought) busy_bot no_price_exchange
       = Some (Returned busy_bot (no_price_exchange\<lparr>price_calls := 1\<rparr>))
   \<and> \<not> truthy (price_replies zero_price_exchange (price_calls zero_price_exchange))
   \<and> run scenario_cfg False 0 (\<lambda>n. Some up_overbought) busy_bot zero_price_exchange
       = Some (Returned busy_bot (zero_price_exchange\<lparr>price_calls := 1\<rparr>))"
proof -
  have f: "\<not> False" by simp
  have n: "\<not> truthy (price_replies no_price_exchange (price_calls no_price_exchange))"
    by (simp add: truthy_def no_price_exchange_def)
  have z: "\<not> truthy (price_replies zero_price_exchange (price_calls zero_price_exchange))"
    by (simp add: truthy_def zero_price_exchange_def)
  note tn = run_without_price_changes_nothing [OF f n, of scenario_cfg 0
      "\<lambda>n. Some up_overbought" busy_bot]
  note tz = run_without_price_changes_nothing [OF f z, of scenario_cfg 0
      "\<lambda>n. Some up_overbought" busy_bot]
  have pn: "price_calls no_price_exchange = 0"
    and pz: "price_calls zero_price_exchange = 0"
    by (simp_all add: no_price_exchange_def zero_price_exchange_def live_exchange_def)
  show ?thesis using n z tn tz by (simp add: pn pz)
qed

end
